theory Spec2Isabelle
  imports Main "HOL-Library.Word"
begin

unbundle bit_operations_syntax

section \<open>Identifiers and records of the curator's durable state\<close>

text \<open>
  The declarations of package \<open>core\<close> and of the protobuf records are not part of
  \<open>fsm.go\<close>; their shape is taken from the way \<open>fsm.go\<close> uses them and from the
  data model of the specification.
\<close>

type_synonym PartitionID = "32 word"
type_synonym BlobKey = "32 word"
type_synonym TractKey = "16 word"
type_synonym TractserverID = "32 word"
type_synonym CuratorID = "32 word"
type_synonym RSChunkKey = "64 word"

text \<open>
  Modelled from the spec: the type \<open>core.BlobID\<close> and \<open>core.BlobIDFromParts\<close> are
  missing. A BlobID is the pair (PartitionID, BlobKey), ordered by partition, then by
  blob key.
\<close>

type_synonym BlobID = "PartitionID \<times> BlobKey"

definition BlobIDFromParts :: "PartitionID \<Rightarrow> BlobKey \<Rightarrow> BlobID" where
  "BlobIDFromParts p k = (p, k)"

record TractID =
  Blob :: BlobID
  Index :: TractKey

text \<open>\<open>core.RSChunkID{Partition, ID}\<close>.\<close>

type_synonym RSChunkID = "PartitionID \<times> RSChunkKey"

text \<open>
  Modelled from the spec: the constant \<open>core.MaxBlobKey\<close> is missing. It is the
  reserved maximal value of the 32-bit blob key, which marks a partition as full.
\<close>

definition MaxBlobKey :: "32 word" where
  "MaxBlobKey = 0xFFFFFFFF"

text \<open>
  Modelled from the spec: the constant \<open>core.RSPartition\<close> is missing. The high two
  bits of a partition id are a type tag; the RS-tagged id of partition 7 is
  \<open>0x80000007\<close> (\<^verbatim>\<open>state_test.go\<close>), so the tag of an RS partition is 2.
\<close>

definition RSPartition :: "32 word" where
  "RSPartition = 2"

text \<open>
  Modelled from the spec: the declaration of \<open>core.Error\<close> is missing. These are the
  error kinds that \<open>fsm.go\<close> and the specification name; any other kind a
  state-layer method may return is \<open>ErrOther\<close>.
\<close>

datatype Error =
    NoError
  | ErrAlreadyExists
  | ErrNoSuchBlob
  | ErrNoSuchTract
  | ErrInvalidArgument
  | ErrExtendConflict
  | ErrConflictingState
  | ErrGenBlobID
  | ErrReadOnlyMode
  | ErrOther nat

text \<open>
  Modelled from the spec: the declaration of \<open>pb.Tract\<close> is missing. A tract record
  has its hosts and a 32-bit version; \<open>fsm.go\<close> compares the version, increments it
  and sets it to 1, in the arithmetic of its type.
\<close>

record Tract =
  Hosts :: "TractserverID list"
  Version :: "32 word"

text \<open>
  Modelled from the spec: the declaration of \<open>pb.Blob\<close> is missing. The fields
  \<open>Repl\<close>, \<open>Mtime\<close>, \<open>Atime\<close>, \<open>Hint\<close>, \<open>Expires\<close> and \<open>Tracts\<close> are
  those \<open>fsm.go\<close> writes (pointers, so options, except the tract list);
  \<open>Deleted\<close> is the soft-delete timestamp, \<open>Storage\<close> the storage class (absent
  means replicated) and \<open>Metadata\<close> the opaque user metadata of the data model.
\<close>

record Blob =
  Repl :: "32 word option"
  Mtime :: "64 word option"
  Atime :: "64 word option"
  Hint :: "32 word option"
  Expires :: "64 word option"
  Deleted :: "64 word option"
  Storage :: "32 word option"
  Metadata :: "8 word list"
  Tracts :: "Tract list"

definition GetRepl :: "Blob \<Rightarrow> 32 word" where
  "GetRepl b = (case Repl b of None \<Rightarrow> 0 | Some r \<Rightarrow> r)"

text \<open>
  Modelled from the spec: the declaration of \<open>pb.Partition\<close> is missing. Its three
  fields are pointers in \<open>fsm.go\<close> (\<open>proto.Uint32\<close>, \<open>*partition.NextBlobKey\<close>,
  \<open>*part.Id\<close>), so options here; a getter reads an unset field as 0.
\<close>

record Partition =
  Id :: "32 word option"
  NextBlobKey :: "32 word option"
  NextRsChunkKey :: "64 word option"

definition GetId :: "Partition \<Rightarrow> 32 word" where
  "GetId p = (case Id p of None \<Rightarrow> 0 | Some i \<Rightarrow> i)"

definition GetNextBlobKey :: "Partition \<Rightarrow> 32 word" where
  "GetNextBlobKey p = (case NextBlobKey p of None \<Rightarrow> 0 | Some k \<Rightarrow> k)"

definition GetNextRsChunkKey :: "Partition \<Rightarrow> 64 word" where
  "GetNextRsChunkKey p = (case NextRsChunkKey p of None \<Rightarrow> 0 | Some k \<Rightarrow> k)"

text \<open>
  Modelled from the spec: an RS chunk record stores a host per piece and, for each
  data piece, the packed tracts (tract id, offset, length). No handler of \<open>fsm.go\<close>
  reads it; it is the content of the \<open>rschunk\<close> bucket.
\<close>

datatype RSChunk =
  RSChunk (rs_storage: "32 word") (rs_hosts: "TractserverID list")
    (rs_data: "(TractID \<times> 32 word \<times> 32 word) list list")

section \<open>The state layer\<close>

text \<open>
  Modelled from the spec: package \<open>state\<close> (the store, its transactions and their
  methods) is missing; only its test is present. The store has the buckets \<open>meta\<close>
  (curator id, applied index, read-only flag, TSID cache), \<open>partition\<close>, \<open>blob\<close>
  and \<open>rschunk\<close>. The partition bucket is kept in ascending order of partition id,
  the order in which \<open>GetPartitions\<close> returns its records.
\<close>

record State =
  curator_id :: CuratorID
  applied_index :: "64 word"
  read_only :: bool
  tsids :: "TractserverID list option"
  partitions :: "(PartitionID \<times> Partition) list"
  blobs :: "BlobID \<rightharpoonup> Blob"
  rschunks :: "RSChunkID \<rightharpoonup> RSChunk"

text \<open>
  Modelled from the spec: \<open>state.Txn\<close>, \<open>WriteTxn\<close>, \<open>Commit\<close> and \<open>GetIndex\<close>
  are missing. A transaction is the view of the buckets it reads and writes,
  together with the index given to \<open>WriteTxn\<close>; on commit a write transaction
  writes the applied-index key \<open>= index\<close> and makes its writes durable
  (\<^verbatim>\<open>state_test.go\<close>, TestMultipleWriteTxns).
\<close>

record Txn =
  txn_index :: "64 word"
  view :: State

definition WriteTxn :: "State \<Rightarrow> 64 word \<Rightarrow> Txn" where
  "WriteTxn s i = \<lparr>txn_index = i, view = s\<rparr>"

definition Commit :: "Txn \<Rightarrow> State" where
  "Commit txn = (view txn)\<lparr>applied_index := txn_index txn\<rparr>"

definition GetIndex :: "State \<Rightarrow> 64 word" where
  "GetIndex s = applied_index s"

text \<open>
  Modelled from the spec: the read-only flag and the curator id are values of the
  \<open>meta\<close> bucket, read and written by these missing methods.
\<close>

definition GetReadOnlyMode :: "Txn \<Rightarrow> bool" where
  "GetReadOnlyMode txn = read_only (view txn)"

definition SetReadOnlyMode :: "Txn \<Rightarrow> bool \<Rightarrow> Txn" where
  "SetReadOnlyMode txn b = txn\<lparr>view := (view txn)\<lparr>read_only := b\<rparr>\<rparr>"

definition GetCuratorID :: "Txn \<Rightarrow> CuratorID" where
  "GetCuratorID txn = curator_id (view txn)"

definition SetCuratorID :: "Txn \<Rightarrow> CuratorID \<Rightarrow> Txn" where
  "SetCuratorID txn c = txn\<lparr>view := (view txn)\<lparr>curator_id := c\<rparr>\<rparr>"

text \<open>Modelled from the spec: \<open>GetPartitions\<close> returns the partitions ordered by id.\<close>

definition GetPartitions :: "Txn \<Rightarrow> Partition list" where
  "GetPartitions txn = map snd (partitions (view txn))"

definition GetPartition :: "Txn \<Rightarrow> PartitionID \<Rightarrow> Partition option" where
  "GetPartition txn i = map_of (partitions (view txn)) i"

fun put_sorted :: "PartitionID \<Rightarrow> Partition \<Rightarrow> (PartitionID \<times> Partition) list
    \<Rightarrow> (PartitionID \<times> Partition) list" where
  "put_sorted k v [] = [(k, v)]"
| "put_sorted k v ((k', v') # ps) =
     (if k < k' then (k, v) # (k', v') # ps
      else if k = k' then (k, v) # ps
      else (k', v') # put_sorted k v ps)"

text \<open>Modelled from the spec: the key of a partition record is its id.\<close>

definition PutPartition :: "Txn \<Rightarrow> Partition \<Rightarrow> Txn" where
  "PutPartition txn p =
     txn\<lparr>view := (view txn)\<lparr>partitions := put_sorted (GetId p) p (partitions (view txn))\<rparr>\<rparr>"

text \<open>
  Modelled from the spec: \<open>GetBlob\<close> returns nil if the blob is missing or
  soft-deleted; \<open>GetBlobAll\<close> returns soft-deleted blobs too (\<^verbatim>\<open>state_test.go\<close>,
  TestStateBasics).
\<close>

definition GetBlobAll :: "Txn \<Rightarrow> BlobID \<Rightarrow> Blob option" where
  "GetBlobAll txn i = blobs (view txn) i"

definition GetBlob :: "Txn \<Rightarrow> BlobID \<Rightarrow> Blob option" where
  "GetBlob txn i =
     (case blobs (view txn) i of
        None \<Rightarrow> None
      | Some b \<Rightarrow> (if Deleted b \<noteq> None then None else Some b))"

text \<open>
  Modelled from the spec: \<open>PutBlob\<close> writes the blob record and, when the TSID cache
  exists, adds the hosts of the blob's tracts to it (the cache is sorted and only
  grows).
\<close>

definition add_tsids :: "TractserverID list \<Rightarrow> TractserverID list option
    \<Rightarrow> TractserverID list option" where
  "add_tsids hs c = map_option (\<lambda>known. fold insort_insert hs known) c"

definition PutBlob :: "Txn \<Rightarrow> BlobID \<Rightarrow> Blob \<Rightarrow> Txn" where
  "PutBlob txn i b =
     txn\<lparr>view := (view txn)\<lparr>blobs := (blobs (view txn))(i \<mapsto> b),
                             tsids := add_tsids (concat (map Hosts (Tracts b))) (tsids (view txn))\<rparr>\<rparr>"

section \<open>Commands and results\<close>

text \<open>
  The command structs are declared outside \<open>fsm.go\<close>; each constructor lists the
  fields \<open>fsm.go\<close> reads, in the order given in the comment. \<open>OtherCommand\<close> stands
  for a decoded value that matches no case of the type switches of \<open>Apply\<close>.
\<close>

datatype Command =
    ChecksumCommand BlobID "64 word"
      \<comment> \<open>Start, N\<close>
  | VerifyChecksumCommand "64 word" "64 word"
      \<comment> \<open>Index, Checksum\<close>
  | SetReadOnlyModeCommand bool
      \<comment> \<open>ReadOnly\<close>
  | SetRegistrationCommand CuratorID
      \<comment> \<open>ID\<close>
  | AddPartitionCommand PartitionID
      \<comment> \<open>ID\<close>
  | SyncPartitionsCommand "PartitionID list"
      \<comment> \<open>Partitions\<close>
  | CreateBlobCommand "64 word" "32 word" "64 word" "64 word"
      \<comment> \<open>Repl, Hint, InitialTime, Expires\<close>
  | DeleteBlobCommand BlobID "64 word"
      \<comment> \<open>ID, When\<close>
  | FinishDeleteCommand "BlobID list"
      \<comment> \<open>Blobs\<close>
  | UndeleteBlobCommand BlobID
      \<comment> \<open>ID\<close>
  | SetMetadataCommand BlobID "8 word list"
      \<comment> \<open>ID, Metadata\<close>
  | ExtendBlobCommand BlobID TractKey "TractserverID list list"
      \<comment> \<open>ID, FirstTractKey, Hosts\<close>
  | ChangeTractCommand TractID "32 word" "TractserverID list"
      \<comment> \<open>ID, NewVersion, NewHosts\<close>
  | UpdateTimesCommand "(BlobID \<times> 64 word \<times> 64 word) list"
      \<comment> \<open>Updates: Blob, MTime, ATime\<close>
  | AllocateRSChunkIDsCommand "64 word"
      \<comment> \<open>N\<close>
  | CommitRSChunkCommand RSChunkID "32 word" "TractserverID list"
      "(TractID \<times> 32 word \<times> 32 word) list list"
      \<comment> \<open>ID, Storage, Hosts, Data\<close>
  | UpdateRSHostsCommand RSChunkID "TractserverID list"
      \<comment> \<open>ID, Hosts\<close>
  | UpdateStorageClassCommand BlobID "32 word"
      \<comment> \<open>ID, Storage\<close>
  | CreateTSIDCacheCommand
  | OtherCommand

text \<open>\<open>core.TractInfo{Tract, Version, TSIDs}\<close>.\<close>

record TractInfo =
  info_Tract :: TractID
  info_Version :: "32 word"
  info_TSIDs :: "TractserverID list"

definition zero_TractInfo :: TractInfo where
  "zero_TractInfo = \<lparr>info_Tract = \<lparr>Blob = (0, 0), Index = 0\<rparr>, info_Version = 0, info_TSIDs = []\<rparr>"

text \<open>
  What \<open>Apply\<close> returns as \<open>interface{}\<close>: nil, a bare \<open>core.Error\<close>, or one of the
  result structs. A field a handler leaves out of a struct literal has its zero
  value (\<open>NoError\<close> for an error).
\<close>

datatype Result =
    Nil
  | CoreError Error
  | ChecksumResult BlobID "64 word" "64 word"
      \<comment> \<open>Next, Checksum, Index\<close>
  | SetRegistrationResult CuratorID
  | AddPartitionResult Error
  | SyncPartitionsResult Error
  | CreateBlobResult BlobID Error
      \<comment> \<open>ID, Err\<close>
  | DeleteBlobResult Error
  | UndeleteBlobResult Error
  | ExtendBlobResult Error nat
      \<comment> \<open>Err, NewSize\<close>
  | ChangeTractResult Error TractInfo
      \<comment> \<open>Err, Info\<close>
  | AllocateRSChunkIDsResult RSChunkID Error
      \<comment> \<open>ID, Err\<close>

text \<open>
  How a handler ends: it returns a result, or it panics (an index out of range, a
  nil pointer dereferenced). The transaction it leaves behind is returned with it.
\<close>

datatype Panic = IndexOutOfRange | NilDereference

datatype Exit = Return Result | Panics Panic

text \<open>
  The parts of the repository that \<open>fsm.go\<close> calls and that are neither in
  \<open>fsm.go\<close> nor described by the specification in enough detail to be written
  down: the remaining methods of the state layer (each maps the buckets the
  transaction sees to the new buckets, with the error it returns), the checksum
  (\<open>Checksum(start, n)\<close> folds over the records of the blob bucket from
  \<open>start\<close> on and returns the checksum and the next start key), the validity test of a curator id and the constant
  \<open>core.MaxRSChunkKey\<close>. They are parameters of the model.
\<close>

record Extern =
  Checksum :: "(BlobID \<rightharpoonup> Blob) \<Rightarrow> BlobID \<Rightarrow> 64 word \<Rightarrow> 64 word \<times> BlobID"
  IsValid :: "CuratorID \<Rightarrow> bool"
  MaxRSChunkKey :: "64 word"
  DeleteBlob :: "State \<Rightarrow> BlobID \<Rightarrow> 64 word \<Rightarrow> Error \<times> State"
  UndeleteBlob :: "State \<Rightarrow> BlobID \<Rightarrow> Error \<times> State"
  FinishDeleteBlobs :: "State \<Rightarrow> BlobID list \<Rightarrow> Error \<times> State"
  SetBlobMetadata :: "State \<Rightarrow> BlobID \<Rightarrow> 8 word list \<Rightarrow> Error \<times> State"
  BatchUpdateTimes :: "State \<Rightarrow> (BlobID \<times> 64 word \<times> 64 word) list \<Rightarrow> State"
  PutRSChunk :: "State \<Rightarrow> RSChunkID \<Rightarrow> 32 word \<Rightarrow> TractserverID list
    \<Rightarrow> (TractID \<times> 32 word \<times> 32 word) list list \<Rightarrow> Error \<times> State"
  UpdateRSHosts :: "State \<Rightarrow> RSChunkID \<Rightarrow> TractserverID list \<Rightarrow> Error \<times> State"
  UpdateStorageClass :: "State \<Rightarrow> BlobID \<Rightarrow> 32 word \<Rightarrow> Error \<times> State"
  CreateTSIDCache :: "State \<Rightarrow> Error \<times> State"

text \<open>A state-layer method called on a transaction: the index of the transaction stays.\<close>

definition call :: "Txn \<Rightarrow> (State \<Rightarrow> Error \<times> State) \<Rightarrow> Error \<times> Txn" where
  "call txn m = (case m (view txn) of (e, s') \<Rightarrow> (e, txn\<lparr>view := s'\<rparr>))"

section \<open>The command handlers of fsm.go\<close>

definition addPartition :: "PartitionID \<Rightarrow> Txn \<Rightarrow> Error \<times> Txn" where
  "addPartition i txn =
     (case GetPartition txn i of
        Some p \<Rightarrow> (ErrAlreadyExists, txn)
      | None \<Rightarrow>
          (NoError, PutPartition txn \<lparr>Id = Some i, NextBlobKey = Some 1, NextRsChunkKey = None\<rparr>))"

definition SetRegistration_apply :: "Extern \<Rightarrow> CuratorID \<Rightarrow> Txn \<Rightarrow> Exit \<times> Txn" where
  "SetRegistration_apply X ID txn =
     (let txn' = (if \<not> IsValid X (GetCuratorID txn) then SetCuratorID txn ID else txn)
      in (Return (SetRegistrationResult (GetCuratorID txn')), txn'))"

definition AddPartition_apply :: "PartitionID \<Rightarrow> Txn \<Rightarrow> Exit \<times> Txn" where
  "AddPartition_apply ID txn =
     (case addPartition ID txn of (e, txn') \<Rightarrow> (Return (AddPartitionResult e), txn'))"

text \<open>The loop of \<open>SyncPartitionsCommand.apply\<close>: the errors are ignored.\<close>

fun sync_loop :: "PartitionID list \<Rightarrow> Txn \<Rightarrow> Txn" where
  "sync_loop [] txn = txn"
| "sync_loop (i # ids) txn = sync_loop ids (snd (addPartition i txn))"

definition SyncPartitions_apply :: "PartitionID list \<Rightarrow> Txn \<Rightarrow> Exit \<times> Txn" where
  "SyncPartitions_apply Partitions txn =
     (Return (SyncPartitionsResult NoError), sync_loop Partitions txn)"

text \<open>
  The first loop of \<open>CreateBlobCommand.apply\<close>: the first partition, in the order of
  \<open>GetPartitions\<close>, whose next blob key is not \<open>MaxBlobKey\<close>.
\<close>

fun find_nonfull :: "Partition list \<Rightarrow> Partition option" where
  "find_nonfull [] = None"
| "find_nonfull (p # ps) =
     (if GetNextBlobKey p \<noteq> MaxBlobKey then Some p else find_nonfull ps)"

definition CreateBlob_apply :: "64 word \<Rightarrow> 32 word \<Rightarrow> 64 word \<Rightarrow> 64 word \<Rightarrow> Txn \<Rightarrow> Exit \<times> Txn" where
  "CreateBlob_apply Repl' Hint' InitialTime Expires' txn =
     (case find_nonfull (GetPartitions txn) of
        None \<Rightarrow> (Return (CreateBlobResult (0, 0) ErrGenBlobID), txn)
      | Some partn \<Rightarrow>
          (case NextBlobKey partn of
             None \<Rightarrow> (Panics NilDereference, txn)
           | Some key \<Rightarrow>
               (let partn' = partn\<lparr>NextBlobKey := Some (key + 1)\<rparr>;
                    txn1 = PutPartition txn partn';
                    ID = BlobIDFromParts (GetId partn') key;
                    blob = \<lparr>Repl = Some (ucast Repl'), Mtime = Some InitialTime,
                            Atime = Some InitialTime, Hint = Some Hint', Expires = None,
                            Deleted = None, Storage = None, Metadata = [], Tracts = []\<rparr>;
                    blob' = (if Expires' \<noteq> 0 then blob\<lparr>Expires := Some Expires'\<rparr> else blob)
                in (Return (CreateBlobResult ID NoError), PutBlob txn1 ID blob'))))"

text \<open>The two loops of \<open>ExtendBlobCommand.apply\<close>.\<close>

fun hosts_mismatch :: "TractserverID list list \<Rightarrow> Blob \<Rightarrow> bool" where
  "hosts_mismatch [] blob = False"
| "hosts_mismatch (h # hs) blob =
     (if length h \<noteq> unat (GetRepl blob) then True else hosts_mismatch hs blob)"

fun add_tracts :: "TractserverID list list \<Rightarrow> Blob \<Rightarrow> Blob" where
  "add_tracts [] blob = blob"
| "add_tracts (hosts # hs) blob =
     add_tracts hs (blob\<lparr>Tracts := Tracts blob @ [\<lparr>Hosts = hosts, Version = 1\<rparr>]\<rparr>)"

definition ExtendBlob_apply :: "BlobID \<Rightarrow> TractKey \<Rightarrow> TractserverID list list \<Rightarrow> Txn \<Rightarrow> Exit \<times> Txn" where
  "ExtendBlob_apply ID FirstTractKey Hosts' txn =
     (case GetBlob txn ID of
        None \<Rightarrow> (Return (ExtendBlobResult ErrNoSuchBlob 0), txn)
      | Some blob \<Rightarrow>
          (if unat FirstTractKey \<noteq> length (Tracts blob)
           then (Return (ExtendBlobResult ErrExtendConflict 0), txn)
           else if hosts_mismatch Hosts' blob
           then (Return (ExtendBlobResult ErrInvalidArgument 0), txn)
           else (let blob' = add_tracts Hosts' blob
                 in (Return (ExtendBlobResult NoError (length (Tracts blob'))),
                     PutBlob txn ID blob'))))"

text \<open>
  \<open>ChangeTractCommand.apply\<close>. The guard is \<open>int(cmd.ID.Index) > len(blob.Tracts)\<close>;
  the read \<open>blob.Tracts[cmd.ID.Index]\<close> that follows panics when the index is not
  below the length.
\<close>

definition ChangeTract_apply :: "TractID \<Rightarrow> 32 word \<Rightarrow> TractserverID list \<Rightarrow> Txn \<Rightarrow> Exit \<times> Txn" where
  "ChangeTract_apply ID NewVersion NewHosts txn =
     (case GetBlob txn (Blob ID) of
        None \<Rightarrow> (Return (ChangeTractResult ErrNoSuchBlob zero_TractInfo), txn)
      | Some blob \<Rightarrow>
          (if unat (Index ID) > length (Tracts blob)
           then (Return (ChangeTractResult ErrNoSuchTract zero_TractInfo), txn)
           else if \<not> unat (Index ID) < length (Tracts blob)
           then (Panics IndexOutOfRange, txn)
           else (let tract = Tracts blob ! unat (Index ID) in
             if length (Hosts tract) \<noteq> length NewHosts
             then (Return (ChangeTractResult ErrInvalidArgument zero_TractInfo), txn)
             else if Version tract + 1 \<noteq> NewVersion
             then (Return (ChangeTractResult ErrConflictingState zero_TractInfo), txn)
             else (let tract' = tract\<lparr>Version := Version tract + 1, Hosts := NewHosts\<rparr>;
                       blob' = blob\<lparr>Tracts := (Tracts blob)[unat (Index ID) := tract']\<rparr>;
                       txn' = PutBlob txn (Blob ID) blob';
                       info = \<lparr>info_Tract = ID, info_Version = Version tract',
                               info_TSIDs = Hosts tract'\<rparr>
                   in (Return (ChangeTractResult NoError info), txn')))))"

text \<open>
  The loop of \<open>AllocateRSChunkIDsCommand.apply\<close>: the first partition with
  \<open>next_rs_chunk_key + N \<le> MaxRSChunkKey\<close>, the sum taken in \<open>uint64\<close>.
\<close>

fun find_fits :: "64 word \<Rightarrow> 64 word \<Rightarrow> Partition list \<Rightarrow> Partition option" where
  "find_fits N mx [] = None"
| "find_fits N mx (p # ps) =
     (if GetNextRsChunkKey p + N \<le> mx then Some p else find_fits N mx ps)"

definition AllocateRSChunkIDs_apply :: "Extern \<Rightarrow> 64 word \<Rightarrow> Txn \<Rightarrow> Exit \<times> Txn" where
  "AllocateRSChunkIDs_apply X N txn =
     (case find_fits N (MaxRSChunkKey X) (GetPartitions txn) of
        None \<Rightarrow> (Return (AllocateRSChunkIDsResult (0, 0) ErrGenBlobID), txn)
      | Some part \<Rightarrow>
          (let key0 = GetNextRsChunkKey part;
               key = (if key0 = 0 then 1 else key0);
               part' = part\<lparr>NextRsChunkKey := Some (key + N)\<rparr>;
               txn' = PutPartition txn part'
           in (case Id part' of
                 None \<Rightarrow> (Panics NilDereference, txn')
               | Some i \<Rightarrow>
                   (Return (AllocateRSChunkIDsResult (push_bit 30 RSPartition OR i, key) NoError),
                    txn'))))"

text \<open>The handlers that hand the command to one method of the state layer.\<close>

definition returning :: "(Error \<Rightarrow> Result) \<Rightarrow> Error \<times> Txn \<Rightarrow> Exit \<times> Txn" where
  "returning mk r = (case r of (e, txn') \<Rightarrow> (Return (mk e), txn'))"

text \<open>
  The last type switch of \<open>Apply\<close>; \<open>None\<close> when no case matches and control
  reaches \<open>log.Fatalf\<close>.
\<close>

fun apply_command :: "Extern \<Rightarrow> Command \<Rightarrow> Txn \<Rightarrow> (Exit \<times> Txn) option" where
  "apply_command X (SetRegistrationCommand ID) txn = Some (SetRegistration_apply X ID txn)"
| "apply_command X (AddPartitionCommand ID) txn = Some (AddPartition_apply ID txn)"
| "apply_command X (SyncPartitionsCommand ps) txn = Some (SyncPartitions_apply ps txn)"
| "apply_command X (CreateBlobCommand r h t e) txn = Some (CreateBlob_apply r h t e txn)"
| "apply_command X (DeleteBlobCommand ID when) txn =
     Some (returning DeleteBlobResult (call txn (\<lambda>s. DeleteBlob X s ID when)))"
| "apply_command X (FinishDeleteCommand bs) txn =
     Some (returning CoreError (call txn (\<lambda>s. FinishDeleteBlobs X s bs)))"
| "apply_command X (UndeleteBlobCommand ID) txn =
     Some (returning UndeleteBlobResult (call txn (\<lambda>s. UndeleteBlob X s ID)))"
| "apply_command X (SetMetadataCommand ID md) txn =
     Some (returning CoreError (call txn (\<lambda>s. SetBlobMetadata X s ID md)))"
| "apply_command X (ExtendBlobCommand ID k hs) txn = Some (ExtendBlob_apply ID k hs txn)"
| "apply_command X (ChangeTractCommand ID v hs) txn = Some (ChangeTract_apply ID v hs txn)"
| "apply_command X (UpdateTimesCommand us) txn =
     Some (returning CoreError (call txn (\<lambda>s. (NoError, BatchUpdateTimes X s us))))"
| "apply_command X (AllocateRSChunkIDsCommand N) txn = Some (AllocateRSChunkIDs_apply X N txn)"
| "apply_command X (CommitRSChunkCommand ID st hs d) txn =
     Some (returning CoreError (call txn (\<lambda>s. PutRSChunk X s ID st hs d)))"
| "apply_command X (UpdateRSHostsCommand ID hs) txn =
     Some (returning CoreError (call txn (\<lambda>s. UpdateRSHosts X s ID hs)))"
| "apply_command X (UpdateStorageClassCommand ID st) txn =
     Some (returning CoreError (call txn (\<lambda>s. UpdateStorageClass X s ID st)))"
| "apply_command X CreateTSIDCacheCommand txn =
     Some (returning CoreError (call txn (CreateTSIDCache X)))"
| "apply_command X (ChecksumCommand start n) txn = None"
| "apply_command X (VerifyChecksumCommand i c) txn = None"
| "apply_command X (SetReadOnlyModeCommand ro) txn = None"
| "apply_command X OtherCommand txn = None"

section \<open>The apply engine\<close>

text \<open>
  The fields of \<open>StateHandler\<close> that \<open>Apply\<close> reads and writes: the store and the
  cached checksum pair.
\<close>

record StateHandler =
  state :: State
  checksum :: "64 word"
  checksumIndex :: "64 word"

text \<open>\<open>raft.Entry\<close>, with the command already decoded (\<open>bytesToCmd\<close>).\<close>

record Entry =
  Index :: "64 word"
  Cmd :: Command

text \<open>A read-only transaction is the snapshot of the store at its start.\<close>

definition LocalReadOnlyTxn :: "StateHandler \<Rightarrow> State" where
  "LocalReadOnlyTxn h = state h"

definition checksumRequest :: "Extern \<Rightarrow> StateHandler \<Rightarrow> BlobID \<Rightarrow> 64 word \<Rightarrow> State \<Rightarrow> 64 word
    \<Rightarrow> Result \<times> StateHandler" where
  "checksumRequest X h Start N rtx index =
     (case Checksum X (blobs rtx) Start N of
        (cksum, next) \<Rightarrow>
          (ChecksumResult next cksum index, h\<lparr>checksum := cksum, checksumIndex := index\<rparr>))"

text \<open>The three branches of \<open>verifyChecksum\<close>; the second one is \<open>log.Fatalf\<close>.\<close>

datatype Verdict = WrongIndex | ConsistencyFailed | ConsistencyPassed

definition verifyChecksum :: "StateHandler \<Rightarrow> 64 word \<Rightarrow> 64 word \<Rightarrow> Verdict" where
  "verifyChecksum h Index' Checksum' =
     (if checksumIndex h \<noteq> Index' then WrongIndex
      else if checksum h \<noteq> Checksum' then ConsistencyFailed
      else ConsistencyPassed)"

text \<open>
  How \<open>Apply\<close> ends: it returns a value, it panics (the deferred commit of the write
  transaction still runs), or it reaches \<open>log.Fatalf\<close>, which ends the process
  without running the deferred commit.
\<close>

datatype Outcome = Returned Result | Panicked Panic | Fatal

definition Apply :: "Extern \<Rightarrow> StateHandler \<Rightarrow> Entry \<Rightarrow> Outcome \<times> StateHandler" where
  "Apply X h ent =
     (let rtx = LocalReadOnlyTxn h;
          txnIndex = GetIndex rtx
      in if Entry.Index ent \<le> txnIndex then (Returned Nil, h)
         else (case Cmd ent of
                 ChecksumCommand Start N \<Rightarrow>
                   (case checksumRequest X h Start N rtx (Entry.Index ent) of
                      (res, h') \<Rightarrow> (Returned res, h'))
               | VerifyChecksumCommand i c \<Rightarrow>
                   (case verifyChecksum h i c of
                      ConsistencyFailed \<Rightarrow> (Fatal, h)
                    | _ \<Rightarrow> (Returned Nil, h))
               | cmd \<Rightarrow>
                   (let txn = WriteTxn (state h) (Entry.Index ent) in
                    case cmd of
                      SetReadOnlyModeCommand ro \<Rightarrow>
                        (Returned (CoreError NoError),
                         h\<lparr>state := Commit (SetReadOnlyMode txn ro)\<rparr>)
                    | _ \<Rightarrow>
                        (if GetReadOnlyMode txn
                         then (Returned (CoreError ErrReadOnlyMode), h\<lparr>state := Commit txn\<rparr>)
                         else (case apply_command X cmd txn of
                                 None \<Rightarrow> (Fatal, h)
                               | Some (Return r, txn') \<Rightarrow>
                                   (Returned r, h\<lparr>state := Commit txn'\<rparr>)
                               | Some (Panics p, txn') \<Rightarrow>
                                   (Panicked p, h\<lparr>state := Commit txn'\<rparr>))))))"

section \<open>Well-formed partition buckets\<close>

text \<open>
  The partition records that \<open>fsm.go\<close> writes (\<open>addPartition\<close> and the two
  allocating handlers) carry their id and a next blob key, and the bucket lists them
  in strictly ascending order of id.
\<close>

definition wf_partitions :: "(PartitionID \<times> Partition) list \<Rightarrow> bool" where
  "wf_partitions ps \<longleftrightarrow>
     sorted_wrt (<) (map fst ps) \<and>
     list_all (\<lambda>kp. Id (snd kp) = Some (fst kp) \<and> NextBlobKey (snd kp) \<noteq> None) ps"

text \<open>
  The part of this invariant that \<open>AllocateRSChunkIDsCommand.apply\<close> relies on: it
  reads the id of a partition and its next RS chunk key, never its next blob key.
\<close>

definition keyed_partitions :: "(PartitionID \<times> Partition) list \<Rightarrow> bool" where
  "keyed_partitions ps \<longleftrightarrow>
     sorted_wrt (<) (map fst ps) \<and> list_all (\<lambda>kp. Id (snd kp) = Some (fst kp)) ps"

text \<open>The handler with the read-only flag of its store set to \<open>b\<close>.\<close>

definition with_read_only :: "bool \<Rightarrow> StateHandler \<Rightarrow> StateHandler" where
  "with_read_only b h = h\<lparr>state := (state h)\<lparr>read_only := b\<rparr>\<rparr>"

definition is_checksum_command :: "Command \<Rightarrow> bool" where
  "is_checksum_command c =
     (case c of ChecksumCommand s n \<Rightarrow> True | VerifyChecksumCommand i k \<Rightarrow> True | _ \<Rightarrow> False)"

definition is_SetReadOnlyMode :: "Command \<Rightarrow> bool" where
  "is_SetReadOnlyMode c = (case c of SetReadOnlyModeCommand b \<Rightarrow> True | _ \<Rightarrow> False)"

section \<open>A concrete store for the examples\<close>

text \<open>
  Partition 1 is full and partition 3 is fresh; blob (1,1) has no tract, blob (1,2)
  has one tract at version 1 and blob (1,3) is soft-deleted. The applied index is 10.
\<close>

definition ex_blob :: Blob where
  "ex_blob = \<lparr>Repl = Some 3, Mtime = Some 100, Atime = Some 100, Hint = Some 0,
     Expires = None, Deleted = None, Storage = None, Metadata = [], Tracts = []\<rparr>"

definition ex_state :: State where
  "ex_state = \<lparr>curator_id = 2, applied_index = 10, read_only = False, tsids = None,
     partitions =
       [(1, \<lparr>Id = Some 1, NextBlobKey = Some MaxBlobKey, NextRsChunkKey = Some 99\<rparr>),
        (3, \<lparr>Id = Some 3, NextBlobKey = Some 1, NextRsChunkKey = None\<rparr>)],
     blobs = [(1, 1) \<mapsto> ex_blob,
              (1, 2) \<mapsto> ex_blob\<lparr>Tracts := [\<lparr>Hosts = [4, 5, 6], Version = 1\<rparr>]\<rparr>,
              (1, 3) \<mapsto> ex_blob\<lparr>Deleted := Some 200\<rparr>],
     rschunks = Map.empty\<rparr>"

definition ex_txn :: Txn where
  "ex_txn = WriteTxn ex_state 11"

definition ex_handler :: StateHandler where
  "ex_handler = \<lparr>state = ex_state, checksum = 5, checksumIndex = 9\<rparr>"

text \<open>
  Values for the parameters in the examples: every remaining state-layer method
  leaves the buckets as they are, the checksum is constant, a curator id is valid
  when it is not 0 and the largest RS chunk key is 100.
\<close>

definition ex_extern :: Extern where
  "ex_extern = \<lparr>Checksum = (\<lambda>bs start n. (7, start)), IsValid = (\<lambda>c. c \<noteq> 0),
     MaxRSChunkKey = 100,
     DeleteBlob = (\<lambda>s i w. (NoError, s)), UndeleteBlob = (\<lambda>s i. (NoError, s)),
     FinishDeleteBlobs = (\<lambda>s bs. (NoError, s)), SetBlobMetadata = (\<lambda>s i m. (NoError, s)),
     BatchUpdateTimes = (\<lambda>s us. s), PutRSChunk = (\<lambda>s i st hs d. (NoError, s)),
     UpdateRSHosts = (\<lambda>s i hs. (NoError, s)), UpdateStorageClass = (\<lambda>s i st. (NoError, s)),
     CreateTSIDCache = (\<lambda>s. (NoError, s))\<rparr>"

section \<open>ChangeTract on a tract that does not exist\<close>

lemmas ex_defs = ex_txn_def ex_handler_def ex_state_def ex_blob_def ex_extern_def WriteTxn_def

text \<open>
  Claim C1. For a ChangeTract command whose blob exists and whose tract index is not
  the index of an existing tract, the handler is to return NoSuchTract and leave the
  blob unchanged, without reading the tract list out of bounds. The guard of the
  handler is \<open>Index > len(Tracts)\<close>, so an index equal to the number of tracts passes
  it: on blob (1,1) of the example store, which has no tract, the command for tract 0
  reads \<open>Tracts[0]\<close> and panics, at the handler and through \<open>Apply\<close> (whose deferred
  commit still advances the applied index).
\<close>

theorem ChangeTract_index_eq_length_panics:
  "ChangeTract_apply \<lparr>Blob = (1, 1), Index = 0\<rparr> 2 [7, 8, 9] ex_txn
     = (Panics IndexOutOfRange, ex_txn)
   \<and> Apply ex_extern ex_handler
        \<lparr>Index = 11, Cmd = ChangeTractCommand \<lparr>Blob = (1, 1), Index = 0\<rparr> 2 [7, 8, 9]\<rparr>
     = (Panicked IndexOutOfRange, ex_handler\<lparr>state := ex_state\<lparr>applied_index := 11\<rparr>\<rparr>)"
  by (simp add: Apply_def LocalReadOnlyTxn_def GetIndex_def GetReadOnlyMode_def Commit_def
      ChangeTract_apply_def GetBlob_def ex_defs)

section \<open>Soft-deleted blobs\<close>

text \<open>
  Claim C10. For a blob that exists but carries a soft-delete timestamp, the
  ExtendBlob and the ChangeTract handler return NoSuchBlob and leave the transaction
  as it was: such a blob can be neither extended nor have a tract reconfigured.
\<close>

theorem soft_deleted_blob_is_NoSuchBlob:
  assumes "blobs (view txn) ID = Some b" and "Deleted b \<noteq> None" and "Blob tid = ID"
  shows "ExtendBlob_apply ID k hs txn = (Return (ExtendBlobResult ErrNoSuchBlob 0), txn)
       \<and> ChangeTract_apply tid v hs' txn
           = (Return (ChangeTractResult ErrNoSuchBlob zero_TractInfo), txn)"
  using assms by (auto simp add: ExtendBlob_apply_def ChangeTract_apply_def GetBlob_def)

theorem soft_deleted_blob_is_NoSuchBlob_witness:
  "blobs (view ex_txn) (1, 3) = Some (ex_blob\<lparr>Deleted := Some 200\<rparr>)
   \<and> Deleted (ex_blob\<lparr>Deleted := Some 200\<rparr>) \<noteq> None
   \<and> ExtendBlob_apply (1, 3) 0 [[4, 5, 6]] ex_txn
       = (Return (ExtendBlobResult ErrNoSuchBlob 0), ex_txn)
   \<and> ChangeTract_apply \<lparr>Blob = (1, 3), Index = 0\<rparr> 2 [7, 8, 9] ex_txn
       = (Return (ChangeTractResult ErrNoSuchBlob zero_TractInfo), ex_txn)"
proof -
  have b: "blobs (view ex_txn) (1, 3) = Some (ex_blob\<lparr>Deleted := Some 200\<rparr>)"
    by (simp add: ex_defs)
  have d: "Deleted (ex_blob\<lparr>Deleted := Some 200\<rparr>) \<noteq> None"
    by simp
  have t: "Blob \<lparr>Blob = (1, 3), Index = 0\<rparr> = ((1, 3) :: BlobID)"
    by simp
  show ?thesis
    using b d soft_deleted_blob_is_NoSuchBlob [OF b d t, of 0 "[[4, 5, 6]]" 2 "[7, 8, 9]"]
    by simp
qed

section \<open>ExtendBlob\<close>

lemma hosts_mismatch_iff:
  "hosts_mismatch hs blob \<longleftrightarrow> (\<exists>h\<in>set hs. length h \<noteq> unat (GetRepl blob))"
  by (induction hs) auto

lemma add_tracts_eq:
  "add_tracts hs blob = blob\<lparr>Tracts := Tracts blob @ map (\<lambda>h. \<lparr>Hosts = h, Version = 1\<rparr>) hs\<rparr>"
  by (induction hs arbitrary: blob) auto

lemma GetBlob_PutBlob_same:
  "GetBlob (PutBlob txn ID b) ID = (if Deleted b \<noteq> None then None else Some b)"
  by (simp add: GetBlob_def PutBlob_def)

lemma GetBlob_Some_not_Deleted: "GetBlob txn ID = Some b \<Longrightarrow> Deleted b = None"
  by (auto simp add: GetBlob_def split: option.splits if_splits)

text \<open>
  Claim C5, as amended. ExtendBlob returns NoSuchBlob when \<open>GetBlob\<close> finds no blob;
  else ExtendConflict, with the transaction untouched, when the first tract key
  differs from the number of tracts; else InvalidArgument, with the transaction
  untouched, when some host vector's length differs from the replication factor;
  otherwise it appends one tract of version 1 per host vector, in order, writes the
  blob back and returns the new number of tracts. After a successful extend that
  appended at least one tract, the same command is rejected with ExtendConflict and
  changes nothing.
\<close>

theorem ExtendBlob_apply_cases:
  "(GetBlob txn ID = None \<longrightarrow>
      ExtendBlob_apply ID k hs txn = (Return (ExtendBlobResult ErrNoSuchBlob 0), txn))
   \<and> (\<forall>blob. GetBlob txn ID = Some blob \<longrightarrow>
        (unat k \<noteq> length (Tracts blob) \<longrightarrow>
           ExtendBlob_apply ID k hs txn = (Return (ExtendBlobResult ErrExtendConflict 0), txn))
      \<and> (unat k = length (Tracts blob) \<and> (\<exists>h\<in>set hs. length h \<noteq> unat (GetRepl blob)) \<longrightarrow>
           ExtendBlob_apply ID k hs txn = (Return (ExtendBlobResult ErrInvalidArgument 0), txn))
      \<and> (unat k = length (Tracts blob) \<and> (\<forall>h\<in>set hs. length h = unat (GetRepl blob)) \<longrightarrow>
           (let blob' = blob\<lparr>Tracts := Tracts blob @ map (\<lambda>h. \<lparr>Hosts = h, Version = 1\<rparr>) hs\<rparr>;
                txn' = PutBlob txn ID blob'
            in ExtendBlob_apply ID k hs txn
                 = (Return (ExtendBlobResult NoError (length (Tracts blob) + length hs)), txn')
             \<and> GetBlob txn' ID = Some blob'
             \<and> (hs \<noteq> [] \<longrightarrow>
                  ExtendBlob_apply ID k hs txn'
                    = (Return (ExtendBlobResult ErrExtendConflict 0), txn')))))"
proof -
  have none: "GetBlob txn ID = None \<Longrightarrow>
      ExtendBlob_apply ID k hs txn = (Return (ExtendBlobResult ErrNoSuchBlob 0), txn)"
    by (simp add: ExtendBlob_apply_def)
  have conflict: "ExtendBlob_apply ID k hs txn = (Return (ExtendBlobResult ErrExtendConflict 0), txn)"
    if "GetBlob txn ID = Some blob" "unat k \<noteq> length (Tracts blob)" for blob
    using that by (simp add: ExtendBlob_apply_def)
  have invalid: "ExtendBlob_apply ID k hs txn = (Return (ExtendBlobResult ErrInvalidArgument 0), txn)"
    if "GetBlob txn ID = Some blob" "unat k = length (Tracts blob)"
       "\<exists>h\<in>set hs. length h \<noteq> unat (GetRepl blob)" for blob
    using that by (simp add: ExtendBlob_apply_def hosts_mismatch_iff)
  have ok: "ExtendBlob_apply ID k hs txn
        = (Return (ExtendBlobResult NoError (length (Tracts blob) + length hs)),
           PutBlob txn ID (blob\<lparr>Tracts := Tracts blob @ map (\<lambda>h. \<lparr>Hosts = h, Version = 1\<rparr>) hs\<rparr>))"
    if "GetBlob txn ID = Some blob" "unat k = length (Tracts blob)"
       "\<forall>h\<in>set hs. length h = unat (GetRepl blob)" for blob
    using that by (simp add: ExtendBlob_apply_def hosts_mismatch_iff add_tracts_eq)
  have after: "GetBlob (PutBlob txn ID (blob\<lparr>Tracts := ts\<rparr>)) ID = Some (blob\<lparr>Tracts := ts\<rparr>)"
    if "GetBlob txn ID = Some blob" for blob ts
    using GetBlob_Some_not_Deleted [OF that] by (simp add: GetBlob_PutBlob_same)
  have dup: "ExtendBlob_apply ID k hs (PutBlob txn ID (blob\<lparr>Tracts := Tracts blob @ map f hs\<rparr>))
        = (Return (ExtendBlobResult ErrExtendConflict 0),
           PutBlob txn ID (blob\<lparr>Tracts := Tracts blob @ map f hs\<rparr>))"
    if "GetBlob txn ID = Some blob" "unat k = length (Tracts blob)" "hs \<noteq> []" for blob f
    using that after [OF that(1)] by (simp add: ExtendBlob_apply_def)
  show ?thesis
    using none conflict invalid ok after dup by (simp add: Let_def)
qed

theorem ExtendBlob_apply_cases_witness:
  "ExtendBlob_apply (1, 1) 0 [[4, 5, 6]] ex_txn
     = (Return (ExtendBlobResult NoError 1),
        PutBlob ex_txn (1, 1) (ex_blob\<lparr>Tracts := [\<lparr>Hosts = [4, 5, 6], Version = 1\<rparr>]\<rparr>))
   \<and> ExtendBlob_apply (1, 1) 0 [[4, 5, 6]]
        (PutBlob ex_txn (1, 1) (ex_blob\<lparr>Tracts := [\<lparr>Hosts = [4, 5, 6], Version = 1\<rparr>]\<rparr>))
     = (Return (ExtendBlobResult ErrExtendConflict 0),
        PutBlob ex_txn (1, 1) (ex_blob\<lparr>Tracts := [\<lparr>Hosts = [4, 5, 6], Version = 1\<rparr>]\<rparr>))
   \<and> ExtendBlob_apply (1, 1) 1 [[4, 5, 6]] ex_txn
     = (Return (ExtendBlobResult ErrExtendConflict 0), ex_txn)
   \<and> ExtendBlob_apply (1, 1) 0 [[4, 5]] ex_txn
     = (Return (ExtendBlobResult ErrInvalidArgument 0), ex_txn)
   \<and> ExtendBlob_apply (1, 9) 0 [[4, 5, 6]] ex_txn
     = (Return (ExtendBlobResult ErrNoSuchBlob 0), ex_txn)"
proof -
  have g: "GetBlob ex_txn (1, 1) = Some ex_blob" "GetBlob ex_txn (1, 9) = None"
    by (simp_all add: GetBlob_def ex_defs)
  have t: "Tracts ex_blob = []" "GetRepl ex_blob = 3"
    by (simp_all add: ex_blob_def GetRepl_def)
  show ?thesis
    using ExtendBlob_apply_cases [of ex_txn "(1, 1)" 0 "[[4, 5, 6]]"]
      ExtendBlob_apply_cases [of ex_txn "(1, 1)" 1 "[[4, 5, 6]]"]
      ExtendBlob_apply_cases [of ex_txn "(1, 1)" 0 "[[4, 5]]"]
      ExtendBlob_apply_cases [of ex_txn "(1, 9)" 0 "[[4, 5, 6]]"]
    by (simp add: g t Let_def)
qed

text \<open>
  Claim C5 as stated says that a duplicate submission after a successful extend is
  rejected. An extend with no host vector succeeds and appends nothing, so the tract
  count still equals the first tract key and the duplicate succeeds as well.
\<close>

theorem ExtendBlob_duplicate_counterexample:
  "fst (ExtendBlob_apply (1, 1) 0 [] ex_txn) = Return (ExtendBlobResult NoError 0)
   \<and> fst (ExtendBlob_apply (1, 1) 0 [] (snd (ExtendBlob_apply (1, 1) 0 [] ex_txn)))
       = Return (ExtendBlobResult NoError 0)"
  by (simp add: ExtendBlob_apply_def GetBlob_def PutBlob_def ex_defs)

section \<open>ChangeTract\<close>

lemma unat_succ: "v \<noteq> - 1 \<Longrightarrow> unat (v + 1) = unat v + 1" for v :: "'a::len word"
proof -
  assume "v \<noteq> - 1"
  then have "1 + v \<noteq> 0"
    by (metis add.commute add_eq_0_iff)
  then show ?thesis
    using unatSuc [of v] by (simp add: add.commute)
qed

text \<open>
  Claim C4. For a ChangeTract command on an existing blob and an existing tract, with
  as many new hosts as the tract has: the command succeeds exactly when the new
  version is the tract's version plus 1, in the arithmetic of the version's type,
  and returns ConflictingState with the transaction untouched otherwise. On success
  the tract's version is the old one plus 1 (numerically too, unless the old version
  is the largest value of its type) and its hosts are the new hosts. A second request
  for the same new version then fails, with ConflictingState when the host count
  still matches and InvalidArgument when it does not, and changes nothing.
\<close>

theorem ChangeTract_version_rule:
  assumes blob: "GetBlob txn (Blob ID) = Some blob"
    and idx: "unat (TractID.Index ID) < length (Tracts blob)"
    and len: "length (Hosts (Tracts blob ! unat (TractID.Index ID))) = length hs"
  shows "(let i = unat (TractID.Index ID);
              old = Tracts blob ! i;
              new = \<lparr>Hosts = hs, Version = Version old + 1\<rparr>;
              blob' = blob\<lparr>Tracts := (Tracts blob)[i := new]\<rparr>;
              txn' = PutBlob txn (Blob ID) blob'
          in (v \<noteq> Version old + 1 \<longrightarrow>
                ChangeTract_apply ID v hs txn
                  = (Return (ChangeTractResult ErrConflictingState zero_TractInfo), txn))
           \<and> (v = Version old + 1 \<longrightarrow>
                ChangeTract_apply ID v hs txn
                  = (Return (ChangeTractResult NoError
                       \<lparr>info_Tract = ID, info_Version = Version old + 1, info_TSIDs = hs\<rparr>), txn')
              \<and> GetBlob txn' (Blob ID) = Some blob'
              \<and> Tracts blob' ! i = new
              \<and> (Version old \<noteq> - 1 \<longrightarrow> unat (Version new) = unat (Version old) + 1)
              \<and> (\<forall>hs2. fst (ChangeTract_apply ID v hs2 txn')
                    = Return (ChangeTractResult
                        (if length hs2 = length hs then ErrConflictingState
                         else ErrInvalidArgument) zero_TractInfo)
                  \<and> snd (ChangeTract_apply ID v hs2 txn') = txn'))
           \<and> ((\<exists>info t. ChangeTract_apply ID v hs txn = (Return (ChangeTractResult NoError info), t))
                \<longleftrightarrow> v = Version old + 1))"
proof -
  define i where "i = unat (TractID.Index ID)"
  define old where "old = Tracts blob ! i"
  define new where "new = \<lparr>Hosts = hs, Version = Version old + 1\<rparr>"
  define blob' where "blob' = blob\<lparr>Tracts := (Tracts blob)[i := new]\<rparr>"
  define txn' where "txn' = PutBlob txn (Blob ID) blob'"
  have i: "i < length (Tracts blob)" and len': "length (Hosts old) = length hs"
    using idx len by (simp_all add: i_def old_def)
  have upd: "old\<lparr>Version := Version old + 1, Hosts := hs\<rparr> = new"
    by (simp add: new_def)
  have new_fields: "Version new = Version old + 1" "Hosts new = hs"
    by (simp_all add: new_def)
  have conflict: "ChangeTract_apply ID v hs txn
      = (Return (ChangeTractResult ErrConflictingState zero_TractInfo), txn)"
    if "v \<noteq> Version old + 1"
    using that blob i len' by (auto simp add: ChangeTract_apply_def Let_def i_def old_def)
  have ok: "ChangeTract_apply ID v hs txn
      = (Return (ChangeTractResult NoError
           \<lparr>info_Tract = ID, info_Version = Version old + 1, info_TSIDs = hs\<rparr>), txn')"
    if "v = Version old + 1"
    using that blob i len'
    by (simp add: ChangeTract_apply_def Let_def txn'_def blob'_def upd new_fields flip: i_def old_def)
  have after: "GetBlob txn' (Blob ID) = Some blob'"
    using GetBlob_Some_not_Deleted [OF blob]
    by (simp add: txn'_def blob'_def GetBlob_PutBlob_same)
  have nth: "Tracts blob' ! i = new" and len_after: "i < length (Tracts blob')"
    using i by (simp_all add: blob'_def)
  have num: "unat (Version new) = unat (Version old) + 1" if "Version old \<noteq> - 1"
    using unat_succ [OF that] by (simp add: new_def)
  have dup: "fst (ChangeTract_apply ID v hs2 txn')
        = Return (ChangeTractResult
            (if length hs2 = length hs then ErrConflictingState else ErrInvalidArgument)
            zero_TractInfo)
      \<and> snd (ChangeTract_apply ID v hs2 txn') = txn'"
    if "v = Version old + 1" for hs2
    using that after nth len_after
    by (auto simp add: ChangeTract_apply_def Let_def new_def simp flip: i_def)
  have iff: "(\<exists>info t. ChangeTract_apply ID v hs txn = (Return (ChangeTractResult NoError info), t))
      \<longleftrightarrow> v = Version old + 1"
    using conflict ok by (cases "v = Version old + 1") auto
  show ?thesis
    unfolding Let_def
    using conflict ok after nth num dup iff
    by (simp add: i_def [symmetric] old_def [symmetric] new_def [symmetric]
        blob'_def [symmetric] txn'_def [symmetric] del: One_nat_def)
qed

theorem ChangeTract_version_rule_witness:
  "ChangeTract_apply \<lparr>Blob = (1, 2), Index = 0\<rparr> 2 [7, 8, 9] ex_txn
     = (Return (ChangeTractResult NoError
          \<lparr>info_Tract = \<lparr>Blob = (1, 2), Index = 0\<rparr>, info_Version = 2, info_TSIDs = [7, 8, 9]\<rparr>),
        PutBlob ex_txn (1, 2) (ex_blob\<lparr>Tracts := [\<lparr>Hosts = [7, 8, 9], Version = 2\<rparr>]\<rparr>))
   \<and> ChangeTract_apply \<lparr>Blob = (1, 2), Index = 0\<rparr> 3 [7, 8, 9] ex_txn
     = (Return (ChangeTractResult ErrConflictingState zero_TractInfo), ex_txn)
   \<and> fst (ChangeTract_apply \<lparr>Blob = (1, 2), Index = 0\<rparr> 2 [1, 2, 3]
        (PutBlob ex_txn (1, 2) (ex_blob\<lparr>Tracts := [\<lparr>Hosts = [7, 8, 9], Version = 2\<rparr>]\<rparr>)))
     = Return (ChangeTractResult ErrConflictingState zero_TractInfo)"
proof -
  let ?b = "ex_blob\<lparr>Tracts := [\<lparr>Hosts = [4, 5, 6], Version = 1\<rparr>]\<rparr>"
  let ?ID = "\<lparr>Blob = (1, 2), Index = 0\<rparr> :: TractID"
  have g: "GetBlob ex_txn (Blob ?ID) = Some ?b"
    by (simp add: GetBlob_def ex_defs)
  have i: "unat (TractID.Index ?ID) < length (Tracts ?b)"
    by simp
  have l: "length (Hosts (Tracts ?b ! unat (TractID.Index ?ID))) = length [7, 8, 9 :: 32 word]"
    by simp
  show ?thesis
    using ChangeTract_version_rule [OF g i l, of 2] ChangeTract_version_rule [OF g i l, of 3]
    by (simp add: Let_def)
qed

section \<open>The partition bucket\<close>

lemma find_nonfull_find:
  "find_nonfull qs = List.find (\<lambda>p. GetNextBlobKey p \<noteq> MaxBlobKey) qs"
  by (induction qs) auto

lemma find_fits_find:
  "find_fits N mx qs = List.find (\<lambda>p. GetNextRsChunkKey p + N \<le> mx) qs"
  by (induction qs) auto

lemma map_of_put_sorted: "map_of (put_sorted k v ps) = (map_of ps)(k \<mapsto> v)"
  by (induction ps) (auto simp add: fun_eq_iff)

lemma set_put_sorted: "set (put_sorted k v ps) \<subseteq> insert (k, v) (set ps)"
  by (induction ps) (auto split: if_splits)

lemma fst_set_put_sorted: "fst ` set (put_sorted k v ps) = insert k (fst ` set ps)"
proof -
  have "fst ` set (put_sorted k v ps) = dom (map_of (put_sorted k v ps))"
    by (simp add: dom_map_of_conv_image_fst)
  also have "\<dots> = insert k (dom (map_of ps))"
    by (simp add: map_of_put_sorted)
  finally show ?thesis
    by (simp add: dom_map_of_conv_image_fst)
qed

lemma sorted_put_sorted:
  "sorted_wrt (<) (map fst ps) \<Longrightarrow> sorted_wrt (<) (map fst (put_sorted k v ps))"
proof (induction ps)
  case Nil
  then show ?case by simp
next
  case (Cons a ps)
  obtain k' v' where a: "a = (k', v')" by (cases a)
  have "\<forall>x\<in>fst ` set (put_sorted k v ps). k' < x" if "k' < k"
    using Cons.prems that by (auto simp add: a fst_set_put_sorted)
  then show ?case
    using Cons by (auto simp add: a)
qed

lemma wf_partitions_put:
  assumes "wf_partitions ps" and "Id p = Some k" and "NextBlobKey p \<noteq> None"
  shows "wf_partitions (put_sorted k p ps)"
proof -
  have "\<forall>kp\<in>set (put_sorted k p ps). Id (snd kp) = Some (fst kp) \<and> NextBlobKey (snd kp) \<noteq> None"
    using assms set_put_sorted [of k p ps] by (auto simp add: wf_partitions_def list_all_iff)
  then show ?thesis
    using assms(1) sorted_put_sorted [of ps k p] by (simp add: wf_partitions_def list_all_iff)
qed

text \<open>The first record of a sorted bucket that satisfies P is the one with the lowest id.\<close>

lemma find_lowest:
  fixes ps :: "('k::linorder \<times> 'p) list"
  assumes "sorted_wrt (<) (map fst ps)" and "List.find P (map snd ps) = Some p"
  shows "\<exists>k. map_of ps k = Some p \<and> P p \<and> (\<forall>k' p'. map_of ps k' = Some p' \<and> k' < k \<longrightarrow> \<not> P p')"
  using assms
proof (induction ps)
  case Nil
  then show ?case by simp
next
  case (Cons a ps)
  obtain k0 p0 where a: "a = (k0, p0)" by (cases a)
  have sorted: "sorted_wrt (<) (map fst ps)"
    using Cons.prems(1) by (simp add: a)
  have above: "k0 < k'" if "map_of ps k' = Some p'" for k' p'
    using Cons.prems(1) map_of_SomeD [OF that] by (force simp add: a)
  show ?case
  proof (cases "P p0")
    case True
    then have "p = p0" using Cons.prems(2) by (simp add: a)
    moreover have "\<not> k' < k0" if "map_of ps k' = Some p'" for k' p'
      using above [OF that] by simp
    ultimately show ?thesis
      using True by (intro exI [of _ k0]) (auto simp add: a)
  next
    case False
    then have "List.find P (map snd ps) = Some p" using Cons.prems(2) by (simp add: a)
    from Cons.IH [OF sorted this] obtain k where
      k: "map_of ps k = Some p" "P p" "\<forall>k' p'. map_of ps k' = Some p' \<and> k' < k \<longrightarrow> \<not> P p'"
      by blast
    have "k0 < k" using above [OF k(1)] .
    then show ?thesis
      using k False by (intro exI [of _ k]) (auto simp add: a)
  qed
qed

lemma wf_partitions_lookup:
  "wf_partitions ps \<Longrightarrow> map_of ps k = Some p \<Longrightarrow> Id p = Some k \<and> NextBlobKey p \<noteq> None"
  by (auto simp add: wf_partitions_def list_all_iff dest!: map_of_SomeD)

lemma max_key_succ: "key \<noteq> MaxBlobKey \<Longrightarrow> unat (key + 1) = unat key + 1"
proof -
  have m: "MaxBlobKey = - 1"
    by (simp add: MaxBlobKey_def)
  show "key \<noteq> MaxBlobKey \<Longrightarrow> unat (key + 1) = unat key + 1"
    unfolding m by (rule unat_succ)
qed

lemma GetPartition_PutPartition:
  "GetPartition (PutPartition txn p) k' = (if k' = GetId p then Some p else GetPartition txn k')"
  by (simp add: GetPartition_def PutPartition_def map_of_put_sorted)

lemma GetPartition_PutBlob: "GetPartition (PutBlob txn i b) k = GetPartition txn k"
  by (simp add: GetPartition_def PutBlob_def)

lemma GetBlobAll_PutBlob:
  "GetBlobAll (PutBlob txn i b) j = (if j = i then Some b else GetBlobAll txn j)"
  by (simp add: GetBlobAll_def PutBlob_def)

lemma GetBlobAll_PutPartition: "GetBlobAll (PutPartition txn p) j = GetBlobAll txn j"
  by (simp add: GetBlobAll_def PutPartition_def)

lemma add_tsids_Nil: "add_tsids [] c = c"
  by (cases c) (simp_all add: add_tsids_def)

section \<open>CreateBlob\<close>

text \<open>
  Claim C6. On a well-formed partition bucket: if every partition is full, CreateBlob
  returns ErrGenBlobID and leaves the transaction untouched. If some partition is not
  full, there is a partition \<open>k\<close>, not full and with every partition of lower id
  full, such that the result is the blob id \<open>(k, key)\<close> with NoError, where \<open>key\<close>
  is the partition's next blob key; the partition's next blob key becomes
  \<open>key + 1\<close> (without wrap-around); the new blob has Mtime = Atime = the initial
  time and carries the expiry only when it is not 0; no other partition, blob or
  bucket changes.
\<close>

theorem CreateBlob_apply_spec:
  assumes wf: "wf_partitions (partitions (view txn))"
  shows "((\<forall>p\<in>set (GetPartitions txn). GetNextBlobKey p = MaxBlobKey) \<longrightarrow>
            CreateBlob_apply r h t e txn = (Return (CreateBlobResult (0, 0) ErrGenBlobID), txn))
       \<and> ((\<exists>p\<in>set (GetPartitions txn). GetNextBlobKey p \<noteq> MaxBlobKey) \<longrightarrow>
            (\<exists>k p key.
               GetPartition txn k = Some p \<and> NextBlobKey p = Some key \<and> key \<noteq> MaxBlobKey
             \<and> (\<forall>k' p'. GetPartition txn k' = Some p' \<and> k' < k
                   \<longrightarrow> GetNextBlobKey p' = MaxBlobKey)
             \<and> (let txn' = snd (CreateBlob_apply r h t e txn) in
                  fst (CreateBlob_apply r h t e txn)
                    = Return (CreateBlobResult (BlobIDFromParts k key) NoError)
                \<and> GetPartition txn' k = Some (p\<lparr>NextBlobKey := Some (key + 1)\<rparr>)
                \<and> unat (key + 1) = unat key + 1
                \<and> (\<forall>k'. k' \<noteq> k \<longrightarrow> GetPartition txn' k' = GetPartition txn k')
                \<and> GetBlobAll txn' (BlobIDFromParts k key)
                    = Some \<lparr>Repl = Some (ucast r), Mtime = Some t, Atime = Some t,
                            Hint = Some h, Expires = (if e \<noteq> 0 then Some e else None),
                            Deleted = None, Storage = None, Metadata = [], Tracts = []\<rparr>
                \<and> (\<forall>b. b \<noteq> BlobIDFromParts k key \<longrightarrow> GetBlobAll txn' b = GetBlobAll txn b)
                \<and> (view txn')\<lparr>partitions := partitions (view txn), blobs := blobs (view txn)\<rparr>
                    = view txn
                \<and> txn_index txn' = txn_index txn
                \<and> wf_partitions (partitions (view txn')))))"
proof (intro conjI impI)
  assume "\<forall>p\<in>set (GetPartitions txn). GetNextBlobKey p = MaxBlobKey"
  then have "find_nonfull (GetPartitions txn) = None"
    by (simp add: find_nonfull_find find_None_iff)
  then show "CreateBlob_apply r h t e txn = (Return (CreateBlobResult (0, 0) ErrGenBlobID), txn)"
    by (simp add: CreateBlob_apply_def)
next
  let ?ps = "partitions (view txn)"
  assume "\<exists>p\<in>set (GetPartitions txn). GetNextBlobKey p \<noteq> MaxBlobKey"
  then obtain p where found: "find_nonfull (GetPartitions txn) = Some p"
    by (cases "find_nonfull (GetPartitions txn)") (auto simp add: find_nonfull_find find_None_iff)
  have sorted: "sorted_wrt (<) (map fst ?ps)"
    using wf by (simp add: wf_partitions_def)
  from find_lowest [OF sorted found [unfolded find_nonfull_find GetPartitions_def]]
  obtain k where k: "map_of ?ps k = Some p" "GetNextBlobKey p \<noteq> MaxBlobKey"
      and low: "\<forall>k' p'. map_of ?ps k' = Some p' \<and> k' < k \<longrightarrow> \<not> GetNextBlobKey p' \<noteq> MaxBlobKey"
    by blast
  from wf_partitions_lookup [OF wf k(1)] obtain key
    where p: "Id p = Some k" "NextBlobKey p = Some key"
    by auto
  have key: "key \<noteq> MaxBlobKey"
    using k(2) p(2) by (simp add: GetNextBlobKey_def)
  define p' where "p' = p\<lparr>NextBlobKey := Some (key + 1)\<rparr>"
  define blob where "blob = \<lparr>Repl = Some (ucast r :: 32 word), Mtime = Some t, Atime = Some t,
     Hint = Some h, Expires = (if e \<noteq> 0 then Some e else None),
     Deleted = None, Storage = None, Metadata = [], Tracts = []\<rparr>"
  define txn' where "txn' = PutBlob (PutPartition txn p') (BlobIDFromParts k key) blob"
  have id': "GetId p' = k"
    using p(1) by (simp add: p'_def GetId_def)
  have run: "CreateBlob_apply r h t e txn
      = (Return (CreateBlobResult (BlobIDFromParts k key) NoError), txn')"
    using found p(2) id'
    by (simp add: CreateBlob_apply_def Let_def txn'_def blob_def flip: p'_def)
  have part_k: "GetPartition txn' k = Some p'"
    by (simp add: txn'_def GetPartition_PutBlob GetPartition_PutPartition id')
  have part_other: "GetPartition txn' k' = GetPartition txn k'" if "k' \<noteq> k" for k'
    using that by (simp add: txn'_def GetPartition_PutBlob GetPartition_PutPartition id')
  have blob_new: "GetBlobAll txn' (BlobIDFromParts k key) = Some blob"
    by (simp add: txn'_def GetBlobAll_PutBlob)
  have blob_other: "GetBlobAll txn' b = GetBlobAll txn b" if "b \<noteq> BlobIDFromParts k key" for b
    using that by (simp add: txn'_def GetBlobAll_PutBlob GetBlobAll_PutPartition)
  have rest: "(view txn')\<lparr>partitions := ?ps, blobs := blobs (view txn)\<rparr> = view txn"
      and idx: "txn_index txn' = txn_index txn"
    by (simp_all add: txn'_def PutBlob_def PutPartition_def blob_def add_tsids_Nil)
  have wf': "wf_partitions (partitions (view txn'))"
    using wf_partitions_put [OF wf, of p' k] p(1)
    by (simp add: txn'_def PutBlob_def PutPartition_def id') (simp add: p'_def)
  have "GetPartition txn k = Some p \<and> NextBlobKey p = Some key \<and> key \<noteq> MaxBlobKey
      \<and> (\<forall>k' p'. GetPartition txn k' = Some p' \<and> k' < k \<longrightarrow> GetNextBlobKey p' = MaxBlobKey)
      \<and> (let txn' = snd (CreateBlob_apply r h t e txn) in
            fst (CreateBlob_apply r h t e txn)
              = Return (CreateBlobResult (BlobIDFromParts k key) NoError)
          \<and> GetPartition txn' k = Some (p\<lparr>NextBlobKey := Some (key + 1)\<rparr>)
          \<and> unat (key + 1) = unat key + 1
          \<and> (\<forall>k'. k' \<noteq> k \<longrightarrow> GetPartition txn' k' = GetPartition txn k')
          \<and> GetBlobAll txn' (BlobIDFromParts k key)
              = Some \<lparr>Repl = Some (ucast r), Mtime = Some t, Atime = Some t,
                      Hint = Some h, Expires = (if e \<noteq> 0 then Some e else None),
                      Deleted = None, Storage = None, Metadata = [], Tracts = []\<rparr>
          \<and> (\<forall>b. b \<noteq> BlobIDFromParts k key \<longrightarrow> GetBlobAll txn' b = GetBlobAll txn b)
          \<and> (view txn')\<lparr>partitions := partitions (view txn), blobs := blobs (view txn)\<rparr>
              = view txn
          \<and> txn_index txn' = txn_index txn
          \<and> wf_partitions (partitions (view txn')))"
    unfolding Let_def run fst_conv snd_conv
    using k(1) p(2) key low part_k part_other blob_new blob_other rest idx wf'
      max_key_succ [OF key]
    by (simp add: GetPartition_def p'_def blob_def del: One_nat_def)
  then show "\<exists>k p key.
       GetPartition txn k = Some p \<and> NextBlobKey p = Some key \<and> key \<noteq> MaxBlobKey
     \<and> (\<forall>k' p'. GetPartition txn k' = Some p' \<and> k' < k \<longrightarrow> GetNextBlobKey p' = MaxBlobKey)
     \<and> (let txn' = snd (CreateBlob_apply r h t e txn) in
          fst (CreateBlob_apply r h t e txn)
            = Return (CreateBlobResult (BlobIDFromParts k key) NoError)
        \<and> GetPartition txn' k = Some (p\<lparr>NextBlobKey := Some (key + 1)\<rparr>)
        \<and> unat (key + 1) = unat key + 1
        \<and> (\<forall>k'. k' \<noteq> k \<longrightarrow> GetPartition txn' k' = GetPartition txn k')
        \<and> GetBlobAll txn' (BlobIDFromParts k key)
            = Some \<lparr>Repl = Some (ucast r), Mtime = Some t, Atime = Some t,
                    Hint = Some h, Expires = (if e \<noteq> 0 then Some e else None),
                    Deleted = None, Storage = None, Metadata = [], Tracts = []\<rparr>
        \<and> (\<forall>b. b \<noteq> BlobIDFromParts k key \<longrightarrow> GetBlobAll txn' b = GetBlobAll txn b)
        \<and> (view txn')\<lparr>partitions := partitions (view txn), blobs := blobs (view txn)\<rparr>
            = view txn
        \<and> txn_index txn' = txn_index txn
        \<and> wf_partitions (partitions (view txn')))"
    by blast
qed

theorem CreateBlob_apply_spec_witness:
  "wf_partitions (partitions (view ex_txn))
   \<and> fst (CreateBlob_apply 3 0 100 0 ex_txn) = Return (CreateBlobResult (3, 1) NoError)
   \<and> (\<exists>k p key.
         GetPartition ex_txn k = Some p \<and> NextBlobKey p = Some key \<and> key \<noteq> MaxBlobKey
       \<and> fst (CreateBlob_apply 3 0 100 0 ex_txn)
           = Return (CreateBlobResult (BlobIDFromParts k key) NoError)
       \<and> GetPartition (snd (CreateBlob_apply 3 0 100 0 ex_txn)) k
           = Some (p\<lparr>NextBlobKey := Some (key + 1)\<rparr>))"
proof -
  have wf: "wf_partitions (partitions (view ex_txn))"
    by (simp add: wf_partitions_def ex_defs)
  have some: "\<exists>p\<in>set (GetPartitions ex_txn). GetNextBlobKey p \<noteq> MaxBlobKey"
    by (simp add: GetPartitions_def GetNextBlobKey_def MaxBlobKey_def ex_defs)
  have run: "fst (CreateBlob_apply 3 0 100 0 ex_txn) = Return (CreateBlobResult (3, 1) NoError)"
    by (simp add: CreateBlob_apply_def GetPartitions_def GetNextBlobKey_def MaxBlobKey_def
        GetId_def BlobIDFromParts_def Let_def ex_defs)
  from CreateBlob_apply_spec [OF wf, of 3 0 100 0] some
  have "\<exists>k p key.
         GetPartition ex_txn k = Some p \<and> NextBlobKey p = Some key \<and> key \<noteq> MaxBlobKey
       \<and> fst (CreateBlob_apply 3 0 100 0 ex_txn)
           = Return (CreateBlobResult (BlobIDFromParts k key) NoError)
       \<and> GetPartition (snd (CreateBlob_apply 3 0 100 0 ex_txn)) k
           = Some (p\<lparr>NextBlobKey := Some (key + 1)\<rparr>)"
    unfolding Let_def by blast
  with wf run show ?thesis by blast
qed

section \<open>AllocateRSChunkIDs\<close>

lemma RS_tag: "push_bit 30 RSPartition = (0x80000000 :: 32 word)"
  by (simp add: RSPartition_def)

lemma keyed_partitions_wf: "wf_partitions ps \<Longrightarrow> keyed_partitions ps"
  by (auto simp add: wf_partitions_def keyed_partitions_def list_all_iff)

lemma keyed_partitions_lookup:
  "keyed_partitions ps \<Longrightarrow> map_of ps k = Some p \<Longrightarrow> Id p = Some k"
  by (auto simp add: keyed_partitions_def list_all_iff dest!: map_of_SomeD)


text \<open>
  What the handler does, in the 64-bit arithmetic of its test and of its update,
  whether or not a sum wraps around.
\<close>

lemma AllocateRSChunkIDs_apply_wrapping:
  assumes keyed: "keyed_partitions (partitions (view txn))"
  shows "((\<forall>p\<in>set (GetPartitions txn). \<not> GetNextRsChunkKey p + N \<le> MaxRSChunkKey X) \<longrightarrow>
            AllocateRSChunkIDs_apply X N txn
              = (Return (AllocateRSChunkIDsResult (0, 0) ErrGenBlobID), txn))
       \<and> ((\<exists>p\<in>set (GetPartitions txn). GetNextRsChunkKey p + N \<le> MaxRSChunkKey X) \<longrightarrow>
            (\<exists>k p.
               GetPartition txn k = Some p \<and> p \<in> set (GetPartitions txn)
             \<and> GetNextRsChunkKey p + N \<le> MaxRSChunkKey X
             \<and> (\<forall>k' p'. GetPartition txn k' = Some p' \<and> k' < k
                   \<longrightarrow> \<not> GetNextRsChunkKey p' + N \<le> MaxRSChunkKey X)
             \<and> AllocateRSChunkIDs_apply X N txn
                 = (Return (AllocateRSChunkIDsResult
                      (0x80000000 OR k, if GetNextRsChunkKey p = 0 then 1 else GetNextRsChunkKey p)
                      NoError),
                    PutPartition txn
                      (p\<lparr>NextRsChunkKey :=
                           Some ((if GetNextRsChunkKey p = 0 then 1 else GetNextRsChunkKey p) + N)\<rparr>))
             \<and> Id p = Some k))"
proof (intro conjI impI)
  assume "\<forall>p\<in>set (GetPartitions txn). \<not> GetNextRsChunkKey p + N \<le> MaxRSChunkKey X"
  then have "find_fits N (MaxRSChunkKey X) (GetPartitions txn) = None"
    by (simp add: find_fits_find find_None_iff)
  then show "AllocateRSChunkIDs_apply X N txn
      = (Return (AllocateRSChunkIDsResult (0, 0) ErrGenBlobID), txn)"
    by (simp add: AllocateRSChunkIDs_apply_def)
next
  let ?ps = "partitions (view txn)"
  let ?fits = "\<lambda>p. GetNextRsChunkKey p + N \<le> MaxRSChunkKey X"
  assume "\<exists>p\<in>set (GetPartitions txn). GetNextRsChunkKey p + N \<le> MaxRSChunkKey X"
  then obtain p where found: "find_fits N (MaxRSChunkKey X) (GetPartitions txn) = Some p"
    by (cases "find_fits N (MaxRSChunkKey X) (GetPartitions txn)")
      (auto simp add: find_fits_find find_None_iff)
  have sorted: "sorted_wrt (<) (map fst ?ps)"
    using keyed by (simp add: keyed_partitions_def)
  from find_lowest [OF sorted found [unfolded find_fits_find GetPartitions_def]]
  obtain k where k: "map_of ?ps k = Some p" "?fits p"
      and low: "\<forall>k' p'. map_of ?ps k' = Some p' \<and> k' < k \<longrightarrow> \<not> ?fits p'"
    by blast
  have p: "Id p = Some k"
    using keyed_partitions_lookup [OF keyed k(1)] .
  have mem: "p \<in> set (GetPartitions txn)"
    using map_of_SomeD [OF k(1)] by (force simp add: GetPartitions_def)
  have run: "AllocateRSChunkIDs_apply X N txn
      = (Return (AllocateRSChunkIDsResult
           (0x80000000 OR k, if GetNextRsChunkKey p = 0 then 1 else GetNextRsChunkKey p) NoError),
         PutPartition txn
           (p\<lparr>NextRsChunkKey :=
                Some ((if GetNextRsChunkKey p = 0 then 1 else GetNextRsChunkKey p) + N)\<rparr>))"
    using found p by (simp add: AllocateRSChunkIDs_apply_def Let_def RS_tag)
  show "\<exists>k p.
       GetPartition txn k = Some p \<and> p \<in> set (GetPartitions txn)
     \<and> GetNextRsChunkKey p + N \<le> MaxRSChunkKey X
     \<and> (\<forall>k' p'. GetPartition txn k' = Some p' \<and> k' < k
           \<longrightarrow> \<not> GetNextRsChunkKey p' + N \<le> MaxRSChunkKey X)
     \<and> AllocateRSChunkIDs_apply X N txn
         = (Return (AllocateRSChunkIDsResult
              (0x80000000 OR k, if GetNextRsChunkKey p = 0 then 1 else GetNextRsChunkKey p)
              NoError),
            PutPartition txn
              (p\<lparr>NextRsChunkKey :=
                   Some ((if GetNextRsChunkKey p = 0 then 1 else GetNextRsChunkKey p) + N)\<rparr>))
     \<and> Id p = Some k"
    using k low p mem run by (intro exI [of _ k] exI [of _ p]) (simp add: GetPartition_def)
qed





section \<open>The invariant of the partition bucket\<close>

text \<open>
  The empty bucket is well formed, and the writers of partition records in
  \<open>fsm.go\<close> keep it so (for CreateBlob this is part of its theorem above).
\<close>

lemma wf_partitions_Nil: "wf_partitions []"
  by (simp add: wf_partitions_def)

lemma wf_partitions_addPartition:
  assumes "wf_partitions (partitions (view txn))"
  shows "wf_partitions (partitions (view (snd (addPartition i txn))))"
proof (cases "GetPartition txn i")
  case None
  then show ?thesis
    using wf_partitions_put [OF assms, of "\<lparr>Id = Some i, NextBlobKey = Some 1, NextRsChunkKey = None\<rparr>" i]
    by (simp add: addPartition_def PutPartition_def GetId_def)
next
  case (Some p)
  then show ?thesis
    using assms by (simp add: addPartition_def)
qed

lemma wf_partitions_sync_loop:
  "wf_partitions (partitions (view txn)) \<Longrightarrow> wf_partitions (partitions (view (sync_loop ids txn)))"
  by (induction ids arbitrary: txn) (simp_all add: wf_partitions_addPartition)

lemma wf_partitions_AllocateRSChunkIDs:
  assumes wf: "wf_partitions (partitions (view txn))"
  shows "wf_partitions (partitions (view (snd (AllocateRSChunkIDs_apply X N txn))))"
proof (cases "\<exists>p\<in>set (GetPartitions txn). GetNextRsChunkKey p + N \<le> MaxRSChunkKey X")
  case False
  then have "AllocateRSChunkIDs_apply X N txn
      = (Return (AllocateRSChunkIDsResult (0, 0) ErrGenBlobID), txn)"
    using AllocateRSChunkIDs_apply_wrapping [OF keyed_partitions_wf [OF wf], of N X] by blast
  then show ?thesis
    using wf by simp
next
  case True
  then obtain k p c where p: "GetPartition txn k = Some p" "Id p = Some k"
    and run: "snd (AllocateRSChunkIDs_apply X N txn)
        = PutPartition txn (p\<lparr>NextRsChunkKey := Some c\<rparr>)"
    using AllocateRSChunkIDs_apply_wrapping [OF keyed_partitions_wf [OF wf], of N X]
    by (metis snd_conv)
  have "NextBlobKey p \<noteq> None"
    using wf_partitions_lookup [OF wf p(1) [unfolded GetPartition_def]] by simp
  then show ?thesis
    using wf_partitions_put [OF wf, of "p\<lparr>NextRsChunkKey := Some c\<rparr>" k] p(2)
    by (simp add: run PutPartition_def GetId_def)
qed

section \<open>ChangeTract: the bounds guard\<close>

text \<open>An index above the number of tracts is rejected; an index equal to it panics.\<close>

lemma ChangeTract_index_above:
  "GetBlob txn (Blob ID) = Some blob \<Longrightarrow> length (Tracts blob) < unat (TractID.Index ID) \<Longrightarrow>
   ChangeTract_apply ID v hs txn = (Return (ChangeTractResult ErrNoSuchTract zero_TractInfo), txn)"
  by (simp add: ChangeTract_apply_def)

lemma ChangeTract_index_at_length:
  "GetBlob txn (Blob ID) = Some blob \<Longrightarrow> unat (TractID.Index ID) = length (Tracts blob) \<Longrightarrow>
   ChangeTract_apply ID v hs txn = (Panics IndexOutOfRange, txn)"
  by (simp add: ChangeTract_apply_def)

section \<open>The apply engine: the branches of Apply\<close>

lemma Apply_replay:
  "Entry.Index ent \<le> GetIndex (state h) \<Longrightarrow> Apply X h ent = (Returned Nil, h)"
  by (simp add: Apply_def LocalReadOnlyTxn_def)

lemma Apply_Checksum:
  "\<not> Entry.Index ent \<le> GetIndex (state h) \<Longrightarrow> Cmd ent = ChecksumCommand Start N \<Longrightarrow>
   Apply X h ent =
     (Returned (ChecksumResult (snd (Checksum X (blobs (state h)) Start N))
        (fst (Checksum X (blobs (state h)) Start N)) (Entry.Index ent)),
      h\<lparr>checksum := fst (Checksum X (blobs (state h)) Start N), checksumIndex := Entry.Index ent\<rparr>)"
  by (simp add: Apply_def LocalReadOnlyTxn_def checksumRequest_def split: prod.splits)

lemma Apply_VerifyChecksum:
  "\<not> Entry.Index ent \<le> GetIndex (state h) \<Longrightarrow> Cmd ent = VerifyChecksumCommand i c \<Longrightarrow>
   Apply X h ent =
     (if verifyChecksum h i c = ConsistencyFailed then (Fatal, h) else (Returned Nil, h))"
  by (simp add: Apply_def LocalReadOnlyTxn_def split: Verdict.splits)

lemma Apply_SetReadOnlyMode:
  "\<not> Entry.Index ent \<le> GetIndex (state h) \<Longrightarrow> Cmd ent = SetReadOnlyModeCommand ro \<Longrightarrow>
   Apply X h ent =
     (Returned (CoreError NoError),
      h\<lparr>state := (state h)\<lparr>read_only := ro, applied_index := Entry.Index ent\<rparr>\<rparr>)"
  by (simp add: Apply_def LocalReadOnlyTxn_def SetReadOnlyMode_def Commit_def WriteTxn_def)

text \<open>What \<open>Apply\<close> does with a command that reaches the read-only gate.\<close>

lemma Apply_gated:
  assumes "\<not> Entry.Index ent \<le> GetIndex (state h)"
    and "\<not> is_checksum_command (Cmd ent)" and "\<not> is_SetReadOnlyMode (Cmd ent)"
  shows "Apply X h ent =
     (if read_only (state h)
      then (Returned (CoreError ErrReadOnlyMode),
            h\<lparr>state := (state h)\<lparr>applied_index := Entry.Index ent\<rparr>\<rparr>)
      else (case apply_command X (Cmd ent) (WriteTxn (state h) (Entry.Index ent)) of
              None \<Rightarrow> (Fatal, h)
            | Some (Return r, txn') \<Rightarrow> (Returned r, h\<lparr>state := Commit txn'\<rparr>)
            | Some (Panics p, txn') \<Rightarrow> (Panicked p, h\<lparr>state := Commit txn'\<rparr>)))"
  using assms
  by (cases "Cmd ent")
    (simp_all add: Apply_def LocalReadOnlyTxn_def is_checksum_command_def is_SetReadOnlyMode_def
      GetReadOnlyMode_def Commit_def WriteTxn_def)

lemma GetIndex_Commit: "GetIndex (Commit txn) = txn_index txn"
  by (simp add: GetIndex_def Commit_def)

text \<open>Every handler returns the transaction it was given, with the same index.\<close>

lemma txn_index_PutBlob: "txn_index (PutBlob txn i b) = txn_index txn"
  by (simp add: PutBlob_def)

lemma txn_index_PutPartition: "txn_index (PutPartition txn p) = txn_index txn"
  by (simp add: PutPartition_def)

lemma txn_index_addPartition: "txn_index (snd (addPartition i txn)) = txn_index txn"
  by (simp add: addPartition_def txn_index_PutPartition split: option.splits)

lemma txn_index_sync_loop: "txn_index (sync_loop ids txn) = txn_index txn"
  by (induction ids arbitrary: txn) (simp_all add: txn_index_addPartition)

lemma txn_index_call: "txn_index (snd (call txn m)) = txn_index txn"
  by (simp add: call_def split: prod.splits)

lemma txn_index_returning: "txn_index (snd (returning mk r)) = txn_index (snd r)"
  by (simp add: returning_def split: prod.splits)

lemma txn_index_CreateBlob: "txn_index (snd (CreateBlob_apply r h t e txn)) = txn_index txn"
  by (simp add: CreateBlob_apply_def Let_def txn_index_PutBlob txn_index_PutPartition
      split: option.splits)

lemma txn_index_ExtendBlob: "txn_index (snd (ExtendBlob_apply i k hs txn)) = txn_index txn"
  by (simp add: ExtendBlob_apply_def Let_def txn_index_PutBlob split: option.splits)

lemma txn_index_ChangeTract: "txn_index (snd (ChangeTract_apply i v hs txn)) = txn_index txn"
  by (simp add: ChangeTract_apply_def Let_def txn_index_PutBlob split: option.splits)

lemma txn_index_Allocate: "txn_index (snd (AllocateRSChunkIDs_apply X N txn)) = txn_index txn"
  by (simp add: AllocateRSChunkIDs_apply_def Let_def txn_index_PutPartition split: option.splits)

lemma txn_index_SetRegistration: "txn_index (snd (SetRegistration_apply X i txn)) = txn_index txn"
  by (simp add: SetRegistration_apply_def Let_def SetCuratorID_def)

lemma txn_index_AddPartition: "txn_index (snd (AddPartition_apply i txn)) = txn_index txn"
  using txn_index_addPartition [of i txn]
  by (auto simp add: AddPartition_apply_def split: prod.splits)

lemma txn_index_apply_command:
  "apply_command X cmd txn = Some (ex, txn') \<Longrightarrow> txn_index txn' = txn_index txn"
proof (cases cmd)
  case (SetRegistrationCommand i)
  assume "apply_command X cmd txn = Some (ex, txn')"
  then show ?thesis
    using txn_index_SetRegistration [of X i txn] by (simp add: SetRegistrationCommand)
next
  case (AddPartitionCommand i)
  assume "apply_command X cmd txn = Some (ex, txn')"
  then show ?thesis
    using txn_index_AddPartition [of i txn] by (simp add: AddPartitionCommand)
next
  case (SyncPartitionsCommand ids)
  assume "apply_command X cmd txn = Some (ex, txn')"
  then show ?thesis
    by (auto simp add: SyncPartitionsCommand SyncPartitions_apply_def txn_index_sync_loop)
next
  case (CreateBlobCommand r h t e)
  assume "apply_command X cmd txn = Some (ex, txn')"
  then show ?thesis
    using txn_index_CreateBlob [of r h t e txn] by (simp add: CreateBlobCommand)
next
  case (ExtendBlobCommand i k hs)
  assume "apply_command X cmd txn = Some (ex, txn')"
  then show ?thesis
    using txn_index_ExtendBlob [of i k hs txn] by (simp add: ExtendBlobCommand)
next
  case (ChangeTractCommand i v hs)
  assume "apply_command X cmd txn = Some (ex, txn')"
  then show ?thesis
    using txn_index_ChangeTract [of i v hs txn] by (simp add: ChangeTractCommand)
next
  case (AllocateRSChunkIDsCommand N)
  assume "apply_command X cmd txn = Some (ex, txn')"
  then show ?thesis
    using txn_index_Allocate [of X N txn] by (simp add: AllocateRSChunkIDsCommand)
qed (auto simp add: returning_def call_def split: prod.splits)

lemma is_SetReadOnlyModeE:
  "is_SetReadOnlyMode c \<Longrightarrow> \<exists>ro. c = SetReadOnlyModeCommand ro"
  by (cases c) (simp_all add: is_SetReadOnlyMode_def)

lemma is_checksum_commandE:
  "is_checksum_command c \<Longrightarrow>
     (\<exists>s n. c = ChecksumCommand s n) \<or> (\<exists>i k. c = VerifyChecksumCommand i k)"
  by (cases c) (simp_all add: is_checksum_command_def)

lemma Apply_write_index:
  assumes fresh: "\<not> Entry.Index ent \<le> GetIndex (state h)"
    and cmd: "\<not> is_checksum_command (Cmd ent)"
    and ret: "Apply X h ent = (Returned r, h')"
  shows "GetIndex (state h') = Entry.Index ent"
proof (cases "is_SetReadOnlyMode (Cmd ent)")
  case True
  then obtain ro where "Cmd ent = SetReadOnlyModeCommand ro"
    using is_SetReadOnlyModeE by blast
  from Apply_SetReadOnlyMode [OF fresh this, of X] ret show ?thesis
    by (auto simp add: GetIndex_def)
next
  case False
  show ?thesis
  proof (cases "read_only (state h)")
    case True
    with Apply_gated [OF fresh cmd False, of X] ret show ?thesis
      by (auto simp add: GetIndex_def)
  next
    case ro: False
    let ?txn = "WriteTxn (state h) (Entry.Index ent)"
    from Apply_gated [OF fresh cmd False, of X] ret ro
    obtain txn' where run: "apply_command X (Cmd ent) ?txn = Some (Return r, txn')"
        and h': "h' = h\<lparr>state := Commit txn'\<rparr>"
      by (auto split: option.splits Exit.splits)
    have "txn_index txn' = Entry.Index ent"
      using txn_index_apply_command [OF run] by (simp add: WriteTxn_def)
    then show ?thesis
      by (simp add: h' GetIndex_Commit)
  qed
qed

lemma Apply_checksum_index:
  assumes cmd: "is_checksum_command (Cmd ent)"
  shows "GetIndex (state (snd (Apply X h ent))) = GetIndex (state h)"
proof (cases "Entry.Index ent \<le> GetIndex (state h)")
  case True
  then show ?thesis by (simp add: Apply_replay)
next
  case False
  from is_checksum_commandE [OF cmd] show ?thesis
  proof (elim disjE exE)
    fix s n assume "Cmd ent = ChecksumCommand s n"
    from Apply_Checksum [OF False this, of X] show ?thesis by simp
  next
    fix i k assume "Cmd ent = VerifyChecksumCommand i k"
    from Apply_VerifyChecksum [OF False this, of X] show ?thesis by simp
  qed
qed

section \<open>The applied index\<close>

text \<open>
  Claim C2, as amended. For an entry whose index is greater than the stored applied
  index and whose command is neither Checksum nor VerifyChecksum, \<open>GetIndex\<close> is
  exactly the entry's index after \<open>Apply\<close> returns, also when the command is
  rejected in read-only mode or its handler returns an error. For a Checksum or
  VerifyChecksum command \<open>Apply\<close> leaves the applied index as it was.
\<close>

theorem Apply_index_after:
  assumes fresh: "GetIndex (state h) < Entry.Index ent"
    and ret: "Apply X h ent = (Returned r, h')"
  shows "(\<not> is_checksum_command (Cmd ent) \<longrightarrow> GetIndex (state h') = Entry.Index ent)
       \<and> (is_checksum_command (Cmd ent) \<longrightarrow> GetIndex (state h') = GetIndex (state h))"
proof -
  have fresh': "\<not> Entry.Index ent \<le> GetIndex (state h)"
    using fresh by simp
  show ?thesis
    using Apply_write_index [OF fresh' _ ret] Apply_checksum_index [of ent X h] ret
    by auto
qed

theorem Apply_index_after_witness:
  "GetIndex (state ex_handler) < 11
   \<and> Apply ex_extern (with_read_only True ex_handler)
        \<lparr>Index = 11, Cmd = CreateBlobCommand 3 0 100 0\<rparr>
       = (Returned (CoreError ErrReadOnlyMode),
          with_read_only True (ex_handler\<lparr>state := ex_state\<lparr>applied_index := 11\<rparr>\<rparr>))
   \<and> GetIndex (state (with_read_only True (ex_handler\<lparr>state := ex_state\<lparr>applied_index := 11\<rparr>\<rparr>)))
       = 11"
proof -
  let ?h = "with_read_only True ex_handler"
  let ?ent = "\<lparr>Index = 11, Cmd = CreateBlobCommand 3 0 100 0\<rparr>"
  let ?h' = "with_read_only True (ex_handler\<lparr>state := ex_state\<lparr>applied_index := 11\<rparr>\<rparr>)"
  have fresh: "GetIndex (state ?h) < Entry.Index ?ent"
    by (simp add: GetIndex_def with_read_only_def ex_defs)
  have ret: "Apply ex_extern ?h ?ent = (Returned (CoreError ErrReadOnlyMode), ?h')"
    by (simp add: Apply_def LocalReadOnlyTxn_def GetIndex_def GetReadOnlyMode_def Commit_def
        with_read_only_def ex_defs)
  have "GetIndex (state ?h') = 11"
    using Apply_index_after [OF fresh ret] by (simp add: is_checksum_command_def)
  moreover have "GetIndex (state ex_handler) < 11"
    by (simp add: GetIndex_def ex_defs)
  ultimately show ?thesis
    using ret by simp
qed

text \<open>
  Claim C2 as stated includes the entries that carry a Checksum or VerifyChecksum
  command. \<open>Apply\<close> runs them on the read-only snapshot and opens no write
  transaction: on the example store, whose applied index is 10, both return at
  entry index 11 and the applied index is still 10.
\<close>

theorem Apply_checksum_index_counterexample:
  "Apply ex_extern ex_handler \<lparr>Index = 11, Cmd = VerifyChecksumCommand 3 4\<rparr>
     = (Returned Nil, ex_handler)
   \<and> Apply ex_extern ex_handler \<lparr>Index = 11, Cmd = ChecksumCommand (0, 0) 5\<rparr>
     = (Returned (ChecksumResult (0, 0) 7 11), ex_handler\<lparr>checksum := 7, checksumIndex := 11\<rparr>)
   \<and> GetIndex (state ex_handler) = 10
   \<and> GetIndex (state (ex_handler\<lparr>checksum := 7, checksumIndex := 11\<rparr>)) = 10"
  by (simp add: Apply_def LocalReadOnlyTxn_def GetIndex_def checksumRequest_def
      verifyChecksum_def ex_defs)

section \<open>Replay\<close>

text \<open>
  Claim C3. For an entry whose index is at most the stored applied index, \<open>Apply\<close>
  returns nil and leaves the whole handler state (every bucket, the applied index,
  the cached checksum pair) as it was. Hence, when \<open>Apply\<close> has returned on an
  entry, applying the same entry again leaves the state as after the first
  application; for a command other than Checksum and VerifyChecksum the second
  application is such a replay and returns nil.
\<close>

theorem Apply_replay_safe:
  "(Entry.Index ent \<le> GetIndex (state h) \<longrightarrow> Apply X h ent = (Returned Nil, h))
   \<and> (\<forall>r h'. Apply X h ent = (Returned r, h') \<longrightarrow>
         snd (Apply X h' ent) = h'
       \<and> (\<not> is_checksum_command (Cmd ent) \<longrightarrow> Apply X h' ent = (Returned Nil, h')))"
proof (intro conjI allI impI)
  assume "Entry.Index ent \<le> GetIndex (state h)"
  then show "Apply X h ent = (Returned Nil, h)"
    by (rule Apply_replay)
next
  fix r h' assume ret: "Apply X h ent = (Returned r, h')"
  show "snd (Apply X h' ent) = h'"
  proof (cases "Entry.Index ent \<le> GetIndex (state h)")
    case True
    with ret have "h' = h" by (simp add: Apply_replay)
    with True show ?thesis by (simp add: Apply_replay)
  next
    case fresh: False
    show ?thesis
    proof (cases "is_checksum_command (Cmd ent)")
      case True
      from is_checksum_commandE [OF True] show ?thesis
      proof (elim disjE exE)
        fix s n assume c: "Cmd ent = ChecksumCommand s n"
        from Apply_Checksum [OF fresh c, of X] ret
        have h': "h' = h\<lparr>checksum := fst (Checksum X (blobs (state h)) s n),
            checksumIndex := Entry.Index ent\<rparr>"
          by simp
        then have "\<not> Entry.Index ent \<le> GetIndex (state h')"
          using fresh by simp
        from Apply_Checksum [OF this c, of X] show ?thesis
          by (simp add: h')
      next
        fix i k assume c: "Cmd ent = VerifyChecksumCommand i k"
        from Apply_VerifyChecksum [OF fresh c, of X] ret
        have "h' = h" and "verifyChecksum h i k \<noteq> ConsistencyFailed"
          by (auto split: if_splits)
        with Apply_VerifyChecksum [OF fresh c, of X] show ?thesis
          by simp
      qed
    next
      case False
      from Apply_write_index [OF fresh False ret]
      have "Entry.Index ent \<le> GetIndex (state h')" by simp
      then show ?thesis by (simp add: Apply_replay)
    qed
  qed
next
  fix r h' assume ret: "Apply X h ent = (Returned r, h')"
    and cmd: "\<not> is_checksum_command (Cmd ent)"
  show "Apply X h' ent = (Returned Nil, h')"
  proof (cases "Entry.Index ent \<le> GetIndex (state h)")
    case True
    with ret have "h' = h" by (simp add: Apply_replay)
    with True show ?thesis by (simp add: Apply_replay)
  next
    case False
    from Apply_write_index [OF False cmd ret]
    have "Entry.Index ent \<le> GetIndex (state h')" by simp
    then show ?thesis by (rule Apply_replay)
  qed
qed

theorem Apply_replay_safe_witness:
  "Apply ex_extern ex_handler \<lparr>Index = 10, Cmd = CreateBlobCommand 3 0 100 0\<rparr>
     = (Returned Nil, ex_handler)
   \<and> fst (Apply ex_extern ex_handler \<lparr>Index = 11, Cmd = CreateBlobCommand 3 0 100 0\<rparr>)
     = Returned (CreateBlobResult (3, 1) NoError)
   \<and> Apply ex_extern
        (snd (Apply ex_extern ex_handler \<lparr>Index = 11, Cmd = CreateBlobCommand 3 0 100 0\<rparr>))
        \<lparr>Index = 11, Cmd = CreateBlobCommand 3 0 100 0\<rparr>
     = (Returned Nil,
        snd (Apply ex_extern ex_handler \<lparr>Index = 11, Cmd = CreateBlobCommand 3 0 100 0\<rparr>))"
proof -
  let ?old = "\<lparr>Index = 10, Cmd = CreateBlobCommand 3 0 100 0\<rparr>"
  let ?ent = "\<lparr>Index = 11, Cmd = CreateBlobCommand 3 0 100 0\<rparr>"
  have old: "Entry.Index ?old \<le> GetIndex (state ex_handler)"
    by (simp add: GetIndex_def ex_defs)
  have run: "fst (Apply ex_extern ex_handler ?ent) = Returned (CreateBlobResult (3, 1) NoError)"
    by (simp add: Apply_def LocalReadOnlyTxn_def GetIndex_def GetReadOnlyMode_def
        CreateBlob_apply_def GetPartitions_def GetNextBlobKey_def MaxBlobKey_def GetId_def
        BlobIDFromParts_def Let_def ex_defs)
  then have ret: "Apply ex_extern ex_handler ?ent
      = (Returned (CreateBlobResult (3, 1) NoError), snd (Apply ex_extern ex_handler ?ent))"
    by (metis prod.collapse)
  have cmd: "\<not> is_checksum_command (Cmd ?ent)"
    by (simp add: is_checksum_command_def)
  show ?thesis
    using Apply_replay_safe [of ?old ex_handler ex_extern]
      Apply_replay_safe [of ?ent ex_handler ex_extern] old run ret cmd
    by blast
qed

section \<open>Read-only mode\<close>

lemma with_read_only_state:
  "state (with_read_only b h) = (state h)\<lparr>read_only := b\<rparr>"
  "checksum (with_read_only b h) = checksum h"
  "checksumIndex (with_read_only b h) = checksumIndex h"
  by (simp_all add: with_read_only_def)

lemma Apply_checksum_flag:
  assumes cmd: "is_checksum_command (Cmd ent)"
  shows "Apply X (with_read_only b h) ent
    = (fst (Apply X h ent), with_read_only b (snd (Apply X h ent)))"
proof (cases "Entry.Index ent \<le> GetIndex (state h)")
  case True
  then have "Entry.Index ent \<le> GetIndex (state (with_read_only b h))"
    by (simp add: with_read_only_state GetIndex_def)
  with True show ?thesis by (simp add: Apply_replay)
next
  case False
  then have fresh: "\<not> Entry.Index ent \<le> GetIndex (state (with_read_only b h))"
    by (simp add: with_read_only_state GetIndex_def)
  from is_checksum_commandE [OF cmd] show ?thesis
  proof (elim disjE exE)
    fix s n assume c: "Cmd ent = ChecksumCommand s n"
    show ?thesis
      unfolding Apply_Checksum [OF fresh c] Apply_Checksum [OF False c]
      by (simp add: with_read_only_def)
  next
    fix i k assume c: "Cmd ent = VerifyChecksumCommand i k"
    show ?thesis
      unfolding Apply_VerifyChecksum [OF fresh c] Apply_VerifyChecksum [OF False c]
      by (simp add: verifyChecksum_def with_read_only_state)
  qed
qed

text \<open>
  Claim C8. For an entry above the stored applied index: a SetReadOnlyMode command is
  applied whatever the current flag is (the flag becomes the command's value and the
  applied index the entry's index). While the flag is set, every command other than
  SetReadOnlyMode, Checksum and VerifyChecksum returns the ReadOnlyMode error and the
  store changes in its applied index only. A Checksum or VerifyChecksum command never
  returns the ReadOnlyMode error, and its result and its effect are the same whatever
  the flag is.
\<close>

theorem Apply_read_only_gate:
  assumes fresh: "GetIndex (state h) < Entry.Index ent"
  shows "(\<forall>ro. Cmd ent = SetReadOnlyModeCommand ro \<longrightarrow>
            Apply X h ent
              = (Returned (CoreError NoError),
                 h\<lparr>state := (state h)\<lparr>read_only := ro, applied_index := Entry.Index ent\<rparr>\<rparr>))
       \<and> (read_only (state h) \<and> \<not> is_SetReadOnlyMode (Cmd ent)
            \<and> \<not> is_checksum_command (Cmd ent) \<longrightarrow>
            Apply X h ent
              = (Returned (CoreError ErrReadOnlyMode),
                 h\<lparr>state := (state h)\<lparr>applied_index := Entry.Index ent\<rparr>\<rparr>))
       \<and> (is_checksum_command (Cmd ent) \<longrightarrow>
            fst (Apply X h ent) \<noteq> Returned (CoreError ErrReadOnlyMode)
          \<and> (\<forall>b. Apply X (with_read_only b h) ent
                  = (fst (Apply X h ent), with_read_only b (snd (Apply X h ent)))))"
proof -
  have fresh': "\<not> Entry.Index ent \<le> GetIndex (state h)"
    using fresh by simp
  have set: "Apply X h ent
      = (Returned (CoreError NoError),
         h\<lparr>state := (state h)\<lparr>read_only := ro, applied_index := Entry.Index ent\<rparr>\<rparr>)"
    if "Cmd ent = SetReadOnlyModeCommand ro" for ro
    using Apply_SetReadOnlyMode [OF fresh' that] .
  have gate: "Apply X h ent
      = (Returned (CoreError ErrReadOnlyMode),
         h\<lparr>state := (state h)\<lparr>applied_index := Entry.Index ent\<rparr>\<rparr>)"
    if "read_only (state h)" "\<not> is_SetReadOnlyMode (Cmd ent)" "\<not> is_checksum_command (Cmd ent)"
    using Apply_gated [OF fresh' that(3) that(2), of X] that(1) by simp
  have never: "fst (Apply X h ent) \<noteq> Returned (CoreError ErrReadOnlyMode)"
    if "is_checksum_command (Cmd ent)"
    using is_checksum_commandE [OF that] Apply_Checksum [OF fresh', of _ _ X]
      Apply_VerifyChecksum [OF fresh', of _ _ X]
    by (auto split: if_splits)
  show ?thesis
    using set gate never Apply_checksum_flag [of ent X _ h] by blast
qed

theorem Apply_read_only_gate_witness:
  "Apply ex_extern (with_read_only True ex_handler) \<lparr>Index = 11, Cmd = SetReadOnlyModeCommand False\<rparr>
     = (Returned (CoreError NoError), ex_handler\<lparr>state := ex_state\<lparr>applied_index := 11\<rparr>\<rparr>)
   \<and> Apply ex_extern (with_read_only True ex_handler)
        \<lparr>Index = 11, Cmd = CreateBlobCommand 3 0 100 0\<rparr>
     = (Returned (CoreError ErrReadOnlyMode),
        ex_handler\<lparr>state := ex_state\<lparr>read_only := True, applied_index := 11\<rparr>\<rparr>)
   \<and> Apply ex_extern (with_read_only True ex_handler) \<lparr>Index = 11, Cmd = ChecksumCommand (0, 0) 5\<rparr>
     = (Returned (ChecksumResult (0, 0) 7 11),
        with_read_only True (ex_handler\<lparr>checksum := 7, checksumIndex := 11\<rparr>))"
proof -
  let ?h = "with_read_only True ex_handler"
  let ?set = "\<lparr>Index = 11, Cmd = SetReadOnlyModeCommand False\<rparr>"
  let ?cre = "\<lparr>Index = 11, Cmd = CreateBlobCommand 3 0 100 0\<rparr>"
  let ?chk = "\<lparr>Index = 11, Cmd = ChecksumCommand (0, 0) 5\<rparr>"
  have fresh: "GetIndex (state ?h) < Entry.Index ?set" "GetIndex (state ?h) < Entry.Index ?cre"
      "GetIndex (state ex_handler) < Entry.Index ?chk"
    by (simp_all add: GetIndex_def with_read_only_def ex_defs)
  have ro: "read_only (state ?h)"
    by (simp add: with_read_only_def)
  have kinds: "\<not> is_SetReadOnlyMode (Cmd ?cre)" "\<not> is_checksum_command (Cmd ?cre)"
      "is_checksum_command (Cmd ?chk)"
    by (simp_all add: is_SetReadOnlyMode_def is_checksum_command_def)
  have chk: "Apply ex_extern ex_handler ?chk
      = (Returned (ChecksumResult (0, 0) 7 11), ex_handler\<lparr>checksum := 7, checksumIndex := 11\<rparr>)"
    by (simp add: Apply_def LocalReadOnlyTxn_def GetIndex_def checksumRequest_def ex_defs)
  have 1: "Apply ex_extern ?h ?set
      = (Returned (CoreError NoError), ex_handler\<lparr>state := ex_state\<lparr>applied_index := 11\<rparr>\<rparr>)"
    using Apply_read_only_gate [OF fresh(1), of ex_extern, THEN conjunct1, rule_format, of False]
    by (simp add: with_read_only_def ex_handler_def ex_state_def)
  have 2: "Apply ex_extern ?h ?cre
      = (Returned (CoreError ErrReadOnlyMode),
         ex_handler\<lparr>state := ex_state\<lparr>read_only := True, applied_index := 11\<rparr>\<rparr>)"
    using Apply_read_only_gate [OF fresh(2), of ex_extern] ro kinds
    by (simp add: with_read_only_def ex_handler_def)
  have 3: "Apply ex_extern ?h ?chk
      = (Returned (ChecksumResult (0, 0) 7 11),
         with_read_only True (ex_handler\<lparr>checksum := 7, checksumIndex := 11\<rparr>))"
    using Apply_read_only_gate [OF fresh(3), of ex_extern] kinds(3) chk
    by simp
  from 1 2 3 show ?thesis by simp
qed

section \<open>VerifyChecksum\<close>

text \<open>
  Claim C9. \<open>verifyChecksum\<close> reaches its fatal branch exactly when the cached
  checksum index equals the expected index and the cached checksum differs from the
  expected one; when the indices differ it takes the branch that only logs. \<open>Apply\<close>
  on a VerifyChecksum entry never changes the store or the cached pair; on an entry
  above the applied index it ends fatally exactly in the case above and returns nil
  otherwise.
\<close>

theorem verifyChecksum_fatal_iff:
  "(verifyChecksum h i c = ConsistencyFailed \<longleftrightarrow> checksumIndex h = i \<and> checksum h \<noteq> c)
   \<and> (checksumIndex h \<noteq> i \<longrightarrow> verifyChecksum h i c = WrongIndex)
   \<and> (Cmd ent = VerifyChecksumCommand i c \<longrightarrow>
        snd (Apply X h ent) = h
      \<and> (GetIndex (state h) < Entry.Index ent \<longrightarrow>
           (fst (Apply X h ent) = Fatal \<longleftrightarrow> checksumIndex h = i \<and> checksum h \<noteq> c)
         \<and> (\<not> (checksumIndex h = i \<and> checksum h \<noteq> c) \<longrightarrow>
              Apply X h ent = (Returned Nil, h))))"
proof -
  have iff: "verifyChecksum h i c = ConsistencyFailed \<longleftrightarrow> checksumIndex h = i \<and> checksum h \<noteq> c"
    by (simp add: verifyChecksum_def)
  have wrong: "checksumIndex h \<noteq> i \<Longrightarrow> verifyChecksum h i c = WrongIndex"
    by (simp add: verifyChecksum_def)
  have same: "snd (Apply X h ent) = h" if "Cmd ent = VerifyChecksumCommand i c"
  proof (cases "Entry.Index ent \<le> GetIndex (state h)")
    case True
    then show ?thesis by (simp add: Apply_replay)
  next
    case False
    from Apply_VerifyChecksum [OF False that, of X] show ?thesis by simp
  qed
  have run: "Apply X h ent
      = (if checksumIndex h = i \<and> checksum h \<noteq> c then (Fatal, h) else (Returned Nil, h))"
    if "Cmd ent = VerifyChecksumCommand i c" "GetIndex (state h) < Entry.Index ent"
    using Apply_VerifyChecksum [OF _ that(1), of h X] that(2) iff by simp
  show ?thesis
    using iff wrong same run by (simp (no_asm_simp))
qed

theorem verifyChecksum_fatal_iff_witness:
  "verifyChecksum ex_handler 9 6 = ConsistencyFailed
   \<and> Apply ex_extern ex_handler \<lparr>Index = 11, Cmd = VerifyChecksumCommand 9 6\<rparr> = (Fatal, ex_handler)
   \<and> Apply ex_extern ex_handler \<lparr>Index = 11, Cmd = VerifyChecksumCommand 8 6\<rparr>
       = (Returned Nil, ex_handler)
   \<and> Apply ex_extern ex_handler \<lparr>Index = 11, Cmd = VerifyChecksumCommand 9 5\<rparr>
       = (Returned Nil, ex_handler)"
proof -
  have c: "checksumIndex ex_handler = 9" "checksum ex_handler = 5"
    by (simp_all add: ex_handler_def)
  have fresh: "GetIndex (state ex_handler) < 11"
    by (simp add: GetIndex_def ex_defs)
  have 1: "verifyChecksum ex_handler 9 6 = ConsistencyFailed"
    using verifyChecksum_fatal_iff [of ex_handler 9 6] c by simp
  have 2: "Apply ex_extern ex_handler \<lparr>Index = 11, Cmd = VerifyChecksumCommand 9 6\<rparr>
      = (Fatal, ex_handler)"
    using verifyChecksum_fatal_iff
      [of ex_handler 9 6 "\<lparr>Index = 11, Cmd = VerifyChecksumCommand 9 6\<rparr>" ex_extern] c fresh
    by (simp add: prod_eq_iff)
  have 3: "Apply ex_extern ex_handler \<lparr>Index = 11, Cmd = VerifyChecksumCommand 8 6\<rparr>
      = (Returned Nil, ex_handler)"
    using verifyChecksum_fatal_iff
      [of ex_handler 8 6 "\<lparr>Index = 11, Cmd = VerifyChecksumCommand 8 6\<rparr>" ex_extern] c fresh
    by simp
  have 4: "Apply ex_extern ex_handler \<lparr>Index = 11, Cmd = VerifyChecksumCommand 9 5\<rparr>
      = (Returned Nil, ex_handler)"
    using verifyChecksum_fatal_iff
      [of ex_handler 9 5 "\<lparr>Index = 11, Cmd = VerifyChecksumCommand 9 5\<rparr>" ex_extern] c fresh
    by simp
  from 1 2 3 4 show ?thesis by simp
qed

end
